theory Spec2Isabelle
  imports
    Main
    "HOL-Library.AList"
    "HOL-Library.Char_ord"
    "HOL-Library.List_Lexorder"
    "HOL-Library.Product_Lexorder"
begin

section \<open>Python values\<close>

text \<open>
  A string is the list of its characters, each a code point below 256. Strings are compared
  as Python compares them: lexicographically, code point by code point (the orders of
  \<open>HOL-Library.List_Lexorder\<close> and \<open>HOL-Library.Char_ord\<close>).
  A naive \<open>datetime\<close> is its date (a day number) and its time of day (microseconds);
  Python orders datetimes by date, then time, which is the lexicographic order on pairs.
  Integers are Python's unbounded integers.
\<close>

type_synonym date = int
type_synonym time = int
type_synonym datetime = "date \<times> time"

definition date_of :: "datetime \<Rightarrow> date" where
  "date_of dt = fst dt"

text \<open>\<open>datetime.combine(d, t)\<close>\<close>

definition combine :: "date \<Rightarrow> time \<Rightarrow> datetime" where
  "combine d t = (d, t)"

text \<open>\<open>datetime.min.time()\<close>: midnight.\<close>

definition min_time :: time where
  "min_time = 0"

text \<open>
  The error kinds of the API. A response with status 404 is \<open>NotFound\<close> (what was
  looked up); a 400 raised by a lifecycle check is \<open>InvalidState\<close> (the offending
  status); a 400 raised by the scope check is \<open>ScopeMismatch\<close> (which scope, the expected
  value, the actual value, the product's name); a 400 for a missing field is
  \<open>ValidationError\<close>; an uncaught Python exception (a 500) is \<open>ServerError\<close>.
\<close>

datatype error =
    NotFound string
  | InvalidState string
  | ScopeMismatch string string string string
  | ValidationError string
  | ServerError string

text \<open>
  \<open>str.lower()\<close>: below 256 the cased capitals are \<open>A\<close> to \<open>Z\<close> (65 to 90) and the
  letters 192 to 222 but for the multiplication sign 215; each has its small letter 32
  above it. The other characters are unchanged.
\<close>

definition lower_char :: "char \<Rightarrow> char" where
  "lower_char c =
     (let n = (of_char c :: nat)
      in if (65 \<le> n \<and> n \<le> 90) \<or> (192 \<le> n \<and> n \<le> 222 \<and> n \<noteq> 215)
         then char_of (n + 32) else c)"

definition py_lower :: "string \<Rightarrow> string" where
  "py_lower s = map lower_char s"

text \<open>
  \<open>str.strip()\<close> removes whitespace from both ends; below 256 the whitespace characters
  are 9 to 13, 28 to 32, 133 and 160.
\<close>

definition is_space :: "char \<Rightarrow> bool" where
  "is_space c =
     (let n = (of_char c :: nat)
      in (9 \<le> n \<and> n \<le> 13) \<or> (28 \<le> n \<and> n \<le> 32) \<or> n = 133 \<or> n = 160)"

definition py_strip :: "string \<Rightarrow> string" where
  "py_strip s = rev (dropWhile is_space (rev (dropWhile is_space s)))"

text \<open>\<open>x or None\<close> for a string \<open>x\<close>: the empty string is falsy.\<close>

definition or_none :: "string \<Rightarrow> string option" where
  "or_none s = (if s = [] then None else Some s)"

text \<open>Truthiness of an optional string: \<open>None\<close> and the empty string are falsy.\<close>

definition truthy :: "string option \<Rightarrow> bool" where
  "truthy v = (case v of None \<Rightarrow> False | Some s \<Rightarrow> s \<noteq> [])"

text \<open>\<open>min\<close> and \<open>max\<close> of a sequence raise \<open>ValueError\<close> on an empty one.\<close>

fun py_min :: "'a::linorder list \<Rightarrow> error + 'a" where
  "py_min [] = Inl (ServerError ''ValueError'')"
| "py_min (x # xs) = Inr (fold min xs x)"

fun py_max :: "'a::linorder list \<Rightarrow> error + 'a" where
  "py_max [] = Inl (ServerError ''ValueError'')"
| "py_max (x # xs) = Inr (fold max xs x)"

text \<open>
  A Python \<open>dict\<close> is an association list with distinct keys in insertion order:
  storing under a key that is present replaces the value in place, storing under a new key
  appends.
\<close>

type_synonym ('k, 'v) dict = "('k \<times> 'v) list"

definition dict_of :: "('k \<times> 'v) list \<Rightarrow> ('k, 'v) dict" where
  "dict_of rows = fold (\<lambda>(k, v) d. AList.update k v d) rows []"

definition dict_get :: "('k, 'v) dict \<Rightarrow> 'k \<Rightarrow> 'v \<Rightarrow> 'v" where
  "dict_get d k dflt = (case map_of d k of None \<Rightarrow> dflt | Some v \<Rightarrow> v)"

definition dict_keys :: "('k, 'v) dict \<Rightarrow> 'k list" where
  "dict_keys d = map fst d"

text \<open>
  \<open>list.sort(key=f, reverse=True)\<close>: a stable sort in descending key order. CPython
  reverses the list, sorts it stably in ascending order, and reverses the result, so that
  elements with equal keys keep their original relative order.
\<close>

definition sort_reverse :: "('a \<Rightarrow> 'k::linorder) \<Rightarrow> 'a list \<Rightarrow> 'a list" where
  "sort_reverse f xs = rev (sort_key f (rev xs))"

text \<open>
  \<open>SELECT k, SUM(v) ... GROUP BY k\<close>: one row for each key that occurs, with the sum of
  its values.
\<close>

definition group_sum :: "('k \<times> int) list \<Rightarrow> ('k \<times> int) list" where
  "group_sum rows =
     map (\<lambda>k. (k, sum_list (map snd (filter (\<lambda>r. fst r = k) rows)))) (remdups (map fst rows))"

section \<open>The tables\<close>

record product =
  prod_id :: int
  prod_sku :: string
  prod_cova_sku :: "string option"
  prod_name :: string
  prod_brand :: "string option"
  prod_category :: "string option"
  prod_subcategory :: "string option"

record inventory_item =
  item_store_id :: int
  item_product_id :: int
  item_current_quantity :: "int option"

record location =
  loc_id :: int
  loc_store_id :: int
  loc_code :: string
  loc_name :: string

record count_session =
  sess_id :: string
  sess_store_id :: int
  sess_created_by_user_id :: int
  sess_status :: string
  sess_expected_snapshot_at :: "datetime option"
  sess_notes :: "string option"

record count_pass =
  pass_id :: string
  pass_session_id :: string
  pass_location_id :: int
  pass_category :: "string option"
  pass_subcategory :: "string option"
  pass_started_at :: datetime
  pass_submitted_at :: "datetime option"
  pass_started_by_user_id :: int
  pass_submitted_by_user_id :: "int option"
  pass_status :: string
  pass_device_id :: "string option"
  pass_scan_mode :: string

record count_line =
  line_id :: string
  line_count_pass_id :: string
  line_product_id :: int
  line_sku :: string
  line_barcode :: "string option"
  line_package_id :: "string option"
  line_counted_qty :: int
  line_unit :: string
  line_captured_at :: datetime
  line_captured_by_user_id :: int
  line_confidence :: string
  line_notes :: "string option"

text \<open>
  A movement without its autoincrement key and import stamp, which the database assigns
  and no code modelled here reads.
\<close>

record movement =
  mv_store_id :: int
  mv_product_id :: int
  mv_sku :: string
  mv_movement_type :: string
  mv_qty_delta :: int
  mv_occurred_at :: datetime
  mv_source :: string
  mv_source_ref :: "string option"

text \<open>The database: each table is the list of its rows, in the order queries return them.\<close>

record database =
  stores :: "int list"
  products :: "product list"
  inventory_items :: "inventory_item list"
  locations :: "location list"
  sessions :: "count_session list"
  passes :: "count_pass list"
  lines :: "count_line list"
  movements :: "movement list"

text \<open>\<open>Model.query.get(id)\<close>: the row with that primary key.\<close>

definition get_session :: "database \<Rightarrow> string \<Rightarrow> count_session option" where
  "get_session db sid = find (\<lambda>s. sess_id s = sid) (sessions db)"

definition get_pass :: "database \<Rightarrow> string \<Rightarrow> count_pass option" where
  "get_pass db pid = find (\<lambda>p. pass_id p = pid) (passes db)"

definition get_line :: "database \<Rightarrow> string \<Rightarrow> count_line option" where
  "get_line db lid = find (\<lambda>l. line_id l = lid) (lines db)"

definition get_location :: "database \<Rightarrow> int \<Rightarrow> location option" where
  "get_location db i = find (\<lambda>l. loc_id l = i) (locations db)"

text \<open>
  \<open>Product.query.filter((Product.sku == code) | (Product.cova_sku == code)).first()\<close>.
  The query has no \<open>ORDER BY\<close>; SQLite answers the disjunction from the index of \<open>sku\<close>
  and then from the index of \<open>cova_sku\<close>, so a product whose SKU is the code comes before
  one whose alternate identifier is the code.
\<close>

definition find_product :: "database \<Rightarrow> string \<Rightarrow> product option" where
  "find_product db code =
     (case find (\<lambda>p. prod_sku p = code) (products db) of
        Some p \<Rightarrow> Some p
      | None \<Rightarrow> find (\<lambda>p. prod_cova_sku p = Some code) (products db))"

section \<open>The variance report (\<open>get_variance\<close>)\<close>

record variance_item =
  vi_sku :: string
  vi_product_name :: "string option"
  vi_brand :: "string option"
  vi_category :: "string option"
  vi_subcategory :: "string option"
  vi_counted_qty :: int
  vi_baseline_qty :: int
  vi_movement_delta :: int
  vi_expected_qty :: int
  vi_variance :: int

record variance_report =
  vr_session_id :: string
  vr_store_id :: int
  vr_status :: string
  vr_total_skus :: nat
  vr_total_variance :: int
  vr_items :: "variance_item list"

text \<open>
  The counted aggregate: the lines joined with their passes, restricted to the submitted
  passes of the session, summed by SKU.
\<close>

definition counted_query :: "database \<Rightarrow> string \<Rightarrow> (string \<times> int) list" where
  "counted_query db sid =
     group_sum [(line_sku l, line_counted_qty l).
        l \<leftarrow> lines db, p \<leftarrow> passes db,
        line_count_pass_id l = pass_id p,
        pass_session_id p = sid \<and> pass_status p = ''submitted'']"

text \<open>The baseline: the catalog joined with the store's inventory items.\<close>

definition baseline_query :: "database \<Rightarrow> int \<Rightarrow> (string \<times> int option) list" where
  "baseline_query db store =
     [(prod_sku pr, item_current_quantity it).
        pr \<leftarrow> products db, it \<leftarrow> inventory_items db,
        item_product_id it = prod_id pr,
        item_store_id it = store]"

text \<open>\<open>row.current_quantity or 0\<close>\<close>

definition or_zero :: "int option \<Rightarrow> int" where
  "or_zero q = (case q of None \<Rightarrow> 0 | Some v \<Rightarrow> v)"

definition submitted_passes :: "database \<Rightarrow> string \<Rightarrow> count_pass list" where
  "submitted_passes db sid =
     filter (\<lambda>p. pass_session_id p = sid \<and> pass_status p = ''submitted'') (passes db)"

definition movement_query ::
  "database \<Rightarrow> int \<Rightarrow> datetime \<Rightarrow> datetime \<Rightarrow> (string \<times> int) list" where
  "movement_query db store earliest latest =
     group_sum [(mv_sku m, mv_qty_delta m).
        m \<leftarrow> movements db,
        mv_store_id m = store \<and> earliest \<le> mv_occurred_at m \<and> mv_occurred_at m \<le> latest]"

text \<open>
  The movement deltas. \<open>max\<close> is applied to the non-null \<open>submitted_at\<close> values of the
  submitted passes and raises when there is none; the test \<open>if latest\<close> that follows it
  is true of every datetime.
\<close>

definition movement_deltas :: "database \<Rightarrow> string \<Rightarrow> int \<Rightarrow> error + (string, int) dict" where
  "movement_deltas db sid store =
     (let ps = submitted_passes db sid in
      if ps = [] then Inr []
      else
        (case py_min (map pass_started_at ps) of
           Inl e \<Rightarrow> Inl e
         | Inr earliest \<Rightarrow>
            (case py_max (map the (filter (\<lambda>t. t \<noteq> None) (map pass_submitted_at ps))) of
               Inl e \<Rightarrow> Inl e
             | Inr latest \<Rightarrow> Inr (dict_of (movement_query db store earliest latest)))))"

fun build_results ::
  "bool \<Rightarrow> (string, int) dict \<Rightarrow> (string, int) dict \<Rightarrow> (string, int) dict \<Rightarrow>
   (string, product) dict \<Rightarrow> string list \<Rightarrow> variance_item list" where
  "build_results nz cnt bl mv info [] = []"
| "build_results nz cnt bl mv info (sku # skus) =
     (let counted = dict_get cnt sku 0;
          baseline = dict_get bl sku 0;
          movement = dict_get mv sku 0;
          expected = baseline + movement;
          variance = counted - expected
      in if nz \<and> variance = 0 then build_results nz cnt bl mv info skus
         else
           (let product = map_of info sku in
            \<lparr> vi_sku = sku,
              vi_product_name = map_option prod_name product,
              vi_brand = Option.bind product prod_brand,
              vi_category = Option.bind product prod_category,
              vi_subcategory = Option.bind product prod_subcategory,
              vi_counted_qty = counted,
              vi_baseline_qty = baseline,
              vi_movement_delta = movement,
              vi_expected_qty = expected,
              vi_variance = variance \<rparr> # build_results nz cnt bl mv info skus))"

definition get_variance :: "database \<Rightarrow> string \<Rightarrow> string \<Rightarrow> error + variance_report" where
  "get_variance db sid non_zero_arg =
     (case get_session db sid of
        None \<Rightarrow> Inl (NotFound ''Session'')
      | Some session \<Rightarrow>
         (let non_zero_only = (py_lower non_zero_arg \<in> set [''true'', ''1'', ''yes'']);
              counted_by_sku = dict_of (counted_query db sid);
              baseline_by_sku =
                dict_of (map (\<lambda>(k, q). (k, or_zero q)) (baseline_query db (sess_store_id session)))
          in case movement_deltas db sid (sess_store_id session) of
               Inl e \<Rightarrow> Inl e
             | Inr deltas \<Rightarrow>
                (let all_skus = set (dict_keys counted_by_sku) \<union> set (dict_keys baseline_by_sku);
                     product_info =
                       dict_of (map (\<lambda>p. (prod_sku p, p))
                         (filter (\<lambda>p. prod_sku p \<in> all_skus) (products db)));
                     results =
                       build_results non_zero_only counted_by_sku baseline_by_sku deltas
                         product_info (sorted_list_of_set all_skus);
                     items = sort_reverse (\<lambda>x. \<bar>vi_variance x\<bar>) results
                 in Inr \<lparr> vr_session_id = sid,
                          vr_store_id = sess_store_id session,
                          vr_status = sess_status session,
                          vr_total_skus = length items,
                          vr_total_variance = sum_list (map (\<lambda>r. \<bar>vi_variance r\<bar>) items),
                          vr_items = items \<rparr>)))"

section \<open>Sessions and passes\<close>

text \<open>
  Every endpoint takes the database and returns its response, or the error it answers
  with, together with the database it leaves behind. The clock (\<open>datetime.utcnow()\<close>),
  the authenticated user and the UUID drawn for a new row are arguments. An absent field
  of the JSON payload is \<open>None\<close>.
\<close>

definition get_str :: "string option \<Rightarrow> string \<Rightarrow> string" where
  "get_str v dflt = (case v of None \<Rightarrow> dflt | Some s \<Rightarrow> s)"

definition create_session ::
  "database \<Rightarrow> int \<Rightarrow> datetime \<Rightarrow> string \<Rightarrow> int option \<Rightarrow> string option \<Rightarrow>
   (error + count_session) \<times> database" where
  "create_session db user_id now new_id store_id notes =
     (case store_id of
        None \<Rightarrow> (Inl (ValidationError ''store_id''), db)
      | Some st \<Rightarrow>
         if st = 0 then (Inl (ValidationError ''store_id''), db)
         else if st \<notin> set (stores db) then (Inl (NotFound ''Store''), db)
         else
           (let session = \<lparr> sess_id = new_id, sess_store_id = st,
                             sess_created_by_user_id = user_id, sess_status = ''draft'',
                             sess_expected_snapshot_at = Some now,
                             sess_notes = or_none (py_strip (get_str notes [])) \<rparr>
            in (Inr session, db\<lparr> sessions := sessions db @ [session] \<rparr>)))"

definition set_session_status :: "string \<Rightarrow> string \<Rightarrow> database \<Rightarrow> database" where
  "set_session_status sid st db =
     db\<lparr> sessions := map (\<lambda>s. if sess_id s = sid then s\<lparr> sess_status := st \<rparr> else s)
                         (sessions db) \<rparr>"

definition start_session :: "database \<Rightarrow> string \<Rightarrow> (error + count_session) \<times> database" where
  "start_session db sid =
     (case get_session db sid of
        None \<Rightarrow> (Inl (NotFound ''Session''), db)
      | Some session \<Rightarrow>
         if sess_status session \<noteq> ''draft'' then (Inl (InvalidState (sess_status session)), db)
         else (Inr (session\<lparr> sess_status := ''in_progress'' \<rparr>),
               set_session_status sid ''in_progress'' db))"

text \<open>
  \<open>open_passes\<close> counts the passes of the session whose status is \<open>in_progress\<close>; the
  session is submitted only when there is none.
\<close>

definition open_passes :: "database \<Rightarrow> string \<Rightarrow> nat" where
  "open_passes db sid =
     length (filter (\<lambda>p. pass_session_id p = sid \<and> pass_status p = ''in_progress'') (passes db))"

definition submit_session :: "database \<Rightarrow> string \<Rightarrow> (error + count_session) \<times> database" where
  "submit_session db sid =
     (case get_session db sid of
        None \<Rightarrow> (Inl (NotFound ''Session''), db)
      | Some session \<Rightarrow>
         if sess_status session \<noteq> ''in_progress''
         then (Inl (InvalidState (sess_status session)), db)
         else if open_passes db sid > 0 then (Inl (InvalidState ''passes still in progress''), db)
         else (Inr (session\<lparr> sess_status := ''submitted'' \<rparr>),
               set_session_status sid ''submitted'' db))"

record create_pass_request =
  cp_location_id :: "int option"
  cp_category :: "string option"
  cp_subcategory :: "string option"
  cp_device_id :: "string option"
  cp_scan_mode :: "string option"

definition create_pass ::
  "database \<Rightarrow> int \<Rightarrow> datetime \<Rightarrow> string \<Rightarrow> string \<Rightarrow> create_pass_request \<Rightarrow>
   (error + count_pass) \<times> database" where
  "create_pass db user_id now new_id sid payload =
     (case get_session db sid of
        None \<Rightarrow> (Inl (NotFound ''Session''), db)
      | Some session \<Rightarrow>
         if sess_status session \<notin> set [''draft'', ''in_progress'']
         then (Inl (InvalidState (sess_status session)), db)
         else
           (case cp_location_id payload of
              None \<Rightarrow> (Inl (ValidationError ''location_id''), db)
            | Some loc \<Rightarrow>
               if loc = 0 then (Inl (ValidationError ''location_id''), db)
               else
                 (case get_location db loc of
                    None \<Rightarrow> (Inl (ValidationError ''location''), db)
                  | Some location \<Rightarrow>
                     if loc_store_id location \<noteq> sess_store_id session
                     then (Inl (ValidationError ''location''), db)
                     else
                       (let db1 = (if sess_status session = ''draft''
                                   then set_session_status sid ''in_progress'' db else db);
                            count_pass =
                              \<lparr> pass_id = new_id, pass_session_id = sid,
                                pass_location_id = loc,
                                pass_category = or_none (py_strip (get_str (cp_category payload) [])),
                                pass_subcategory =
                                  or_none (py_strip (get_str (cp_subcategory payload) [])),
                                pass_started_at = now, pass_submitted_at = None,
                                pass_started_by_user_id = user_id,
                                pass_submitted_by_user_id = None,
                                pass_status = ''in_progress'',
                                pass_device_id =
                                  or_none (py_strip (get_str (cp_device_id payload) [])),
                                pass_scan_mode =
                                  py_strip (get_str (cp_scan_mode payload) ''scanner'') \<rparr>
                        in (Inr count_pass, db1\<lparr> passes := passes db1 @ [count_pass] \<rparr>)))))"

definition submit_pass ::
  "database \<Rightarrow> int \<Rightarrow> datetime \<Rightarrow> string \<Rightarrow> (error + count_pass) \<times> database" where
  "submit_pass db user_id now pid =
     (case get_pass db pid of
        None \<Rightarrow> (Inl (NotFound ''Pass''), db)
      | Some count_pass \<Rightarrow>
         if pass_status count_pass \<noteq> ''in_progress''
         then (Inl (InvalidState (pass_status count_pass)), db)
         else
           (let upd = (\<lambda>p. p\<lparr> pass_status := ''submitted'', pass_submitted_at := Some now,
                                pass_submitted_by_user_id := Some user_id \<rparr>)
            in (Inr (upd count_pass),
                db\<lparr> passes := map (\<lambda>p. if pass_id p = pid then upd p else p) (passes db) \<rparr>)))"

definition void_pass :: "database \<Rightarrow> string \<Rightarrow> (error + count_pass) \<times> database" where
  "void_pass db pid =
     (case get_pass db pid of
        None \<Rightarrow> (Inl (NotFound ''Pass''), db)
      | Some count_pass \<Rightarrow>
         if pass_status count_pass = ''voided'' then (Inl (InvalidState ''voided''), db)
         else (Inr (count_pass\<lparr> pass_status := ''voided'' \<rparr>),
               db\<lparr> passes := map (\<lambda>p. if pass_id p = pid then p\<lparr> pass_status := ''voided'' \<rparr>
                                        else p) (passes db) \<rparr>))"

section \<open>Lines\<close>

record add_line_request =
  al_barcode :: "string option"
  al_counted_qty :: "int option"
  al_package_id :: "string option"
  al_confidence :: "string option"
  al_notes :: "string option"

record add_line_response =
  alr_line :: count_line
  alr_incremented :: bool
  alr_previous_qty :: "int option"
  alr_product :: "product option"

text \<open>
  The scope check of \<open>add_line\<close>: a scope of the pass and a value of the product that
  are both truthy must agree after lower-casing.
\<close>

definition scope_conflict :: "string option \<Rightarrow> string option \<Rightarrow> bool" where
  "scope_conflict scope actual =
     (truthy scope \<and> truthy actual \<and> py_lower (the actual) \<noteq> py_lower (the scope))"

text \<open>
  \<open>InventoryCountLine.query.filter_by(count_pass_id=pass_id, sku=sku).first()\<close>
\<close>

definition existing_line :: "database \<Rightarrow> string \<Rightarrow> string \<Rightarrow> count_line option" where
  "existing_line db pid sku =
     find (\<lambda>l. line_count_pass_id l = pid \<and> line_sku l = sku) (lines db)"

text \<open>
  The row written back for an incremented line: the flush updates the columns that were
  assigned, in the row with the line's primary key.
\<close>

definition increment_line ::
  "count_line \<Rightarrow> int \<Rightarrow> datetime \<Rightarrow> int \<Rightarrow> string option \<Rightarrow> count_line \<Rightarrow> count_line" where
  "increment_line ex qty now user_id notes l =
     (let l1 = l\<lparr> line_counted_qty := line_counted_qty ex + qty,
                  line_captured_at := now,
                  line_captured_by_user_id := user_id \<rparr>
      in if truthy notes then l1\<lparr> line_notes := notes \<rparr> else l1)"

definition add_line ::
  "database \<Rightarrow> int \<Rightarrow> datetime \<Rightarrow> string \<Rightarrow> string \<Rightarrow> add_line_request \<Rightarrow>
   (error + add_line_response) \<times> database" where
  "add_line db user_id now new_id pid payload =
     (case get_pass db pid of
        None \<Rightarrow> (Inl (NotFound ''Pass''), db)
      | Some count_pass \<Rightarrow>
         if pass_status count_pass \<noteq> ''in_progress''
         then (Inl (InvalidState (pass_status count_pass)), db)
         else
           (let barcode = py_strip (get_str (al_barcode payload) []) in
            if barcode = [] then (Inl (ValidationError ''barcode''), db)
            else
              (case find_product db barcode of
                 None \<Rightarrow> (Inl (NotFound ''Product''), db)
               | Some product \<Rightarrow>
                  if scope_conflict (pass_category count_pass) (prod_category product)
                  then (Inl (ScopeMismatch ''category'' (the (pass_category count_pass))
                               (the (prod_category product)) (prod_name product)), db)
                  else if scope_conflict (pass_subcategory count_pass) (prod_subcategory product)
                  then (Inl (ScopeMismatch ''subcategory'' (the (pass_subcategory count_pass))
                               (the (prod_subcategory product)) (prod_name product)), db)
                  else
                    (let counted_qty = (case al_counted_qty payload of None \<Rightarrow> 1 | Some q \<Rightarrow> q);
                         package_id = or_none (py_strip (get_str (al_package_id payload) []));
                         confidence = py_strip (get_str (al_confidence payload) ''scanned'');
                         notes = or_none (py_strip (get_str (al_notes payload) []))
                     in case existing_line db pid (prod_sku product) of
                          Some ex \<Rightarrow>
                            (let upd = increment_line ex counted_qty now user_id notes in
                             (Inr \<lparr> alr_line = upd ex, alr_incremented = True,
                                    alr_previous_qty =
                                      Some (line_counted_qty (upd ex) - counted_qty),
                                    alr_product = None \<rparr>,
                              db\<lparr> lines := map (\<lambda>l. if line_id l = line_id ex then upd l else l)
                                                 (lines db) \<rparr>))
                        | None \<Rightarrow>
                            (let line = \<lparr> line_id = new_id, line_count_pass_id = pid,
                                          line_product_id = prod_id product,
                                          line_sku = prod_sku product,
                                          line_barcode = Some barcode,
                                          line_package_id = package_id,
                                          line_counted_qty = counted_qty,
                                          line_unit = ''each'',
                                          line_captured_at = now,
                                          line_captured_by_user_id = user_id,
                                          line_confidence = confidence,
                                          line_notes = notes \<rparr>
                             in (Inr \<lparr> alr_line = line, alr_incremented = False,
                                       alr_previous_qty = None,
                                       alr_product = Some product \<rparr>,
                                 db\<lparr> lines := lines db @ [line] \<rparr>))))))"

record update_line_request =
  ul_counted_qty :: "int option"
  ul_notes :: "string option"

definition correct_line :: "update_line_request \<Rightarrow> datetime \<Rightarrow> int \<Rightarrow> count_line \<Rightarrow> count_line" where
  "correct_line payload now user_id l =
     l\<lparr> line_counted_qty := (case ul_counted_qty payload of None \<Rightarrow> line_counted_qty l | Some q \<Rightarrow> q),
        line_notes := (case ul_notes payload of None \<Rightarrow> line_notes l
                       | Some n \<Rightarrow> or_none (py_strip n)),
        line_confidence := ''corrected'',
        line_captured_at := now,
        line_captured_by_user_id := user_id \<rparr>"

text \<open>
  \<open>line.count_pass\<close> is the pass the line's foreign key names; reading its status when no
  such pass exists raises \<open>AttributeError\<close>.
\<close>

definition update_line ::
  "database \<Rightarrow> int \<Rightarrow> datetime \<Rightarrow> string \<Rightarrow> update_line_request \<Rightarrow>
   (error + count_line) \<times> database" where
  "update_line db user_id now lid payload =
     (case get_line db lid of
        None \<Rightarrow> (Inl (NotFound ''Line''), db)
      | Some line \<Rightarrow>
         (case get_pass db (line_count_pass_id line) of
            None \<Rightarrow> (Inl (ServerError ''AttributeError''), db)
          | Some count_pass \<Rightarrow>
             if pass_status count_pass \<noteq> ''in_progress''
             then (Inl (InvalidState (pass_status count_pass)), db)
             else (Inr (correct_line payload now user_id line),
                   db\<lparr> lines := map (\<lambda>l. if line_id l = lid
                                            then correct_line payload now user_id l else l)
                                      (lines db) \<rparr>)))"

definition delete_line :: "database \<Rightarrow> string \<Rightarrow> (error + bool) \<times> database" where
  "delete_line db lid =
     (case get_line db lid of
        None \<Rightarrow> (Inl (NotFound ''Line''), db)
      | Some line \<Rightarrow>
         (case get_pass db (line_count_pass_id line) of
            None \<Rightarrow> (Inl (ServerError ''AttributeError''), db)
          | Some count_pass \<Rightarrow>
             if pass_status count_pass \<noteq> ''in_progress''
             then (Inl (InvalidState (pass_status count_pass)), db)
             else (Inr True, db\<lparr> lines := filter (\<lambda>l. line_id l \<noteq> lid) (lines db) \<rparr>)))"

section \<open>Sales sync (\<open>SalesSyncService\<close>)\<close>

text \<open>\<open>str(n)\<close> for an integer: its decimal digits, with a minus sign when negative.\<close>

fun nat_str :: "nat \<Rightarrow> string" where
  "nat_str n =
     (if n < 10 then [char_of (48 + n)] else nat_str (n div 10) @ [char_of (48 + n mod 10)])"

declare nat_str.simps [simp del]

definition int_str :: "int \<Rightarrow> string" where
  "int_str i = (if i < 0 then CHR ''-'' # nat_str (nat (- i)) else nat_str (nat i))"

text \<open>
  A row of the external table \<open>cova_sales\<close>, with the columns the sync reads. The table is
  filled by another program; its rows are an input of the sync.
\<close>

record sale =
  sale_transaction_id :: string
  sale_line_number :: int
  sale_cova_store_id :: string
  sale_transaction_date :: date
  sale_transaction_time :: "time option"
  sale_product_sku :: "string option"
  sale_quantity :: "int option"

record sync_stats =
  st_from_date :: date
  st_to_date :: date
  st_store_id :: int
  st_sales_found :: nat
  st_movements_created :: nat
  st_movements_skipped :: nat
  st_products_not_found :: "string list"
  st_errors :: "string list"
  st_movements_deleted :: "nat option"

definition STORE_ID_MAP :: "(string \<times> int) list" where
  "STORE_ID_MAP =
     [(''kingsway'', 1), (''Kingsway'', 1), (''1'', 1),
      (''fraser'', 2), (''Fraser'', 2), (''2'', 2)]"

definition get_cova_store_ids :: "int \<Rightarrow> string list" where
  "get_cova_store_ids ike_store_id =
     (let cova_ids = map fst (filter (\<lambda>(cova_id, ike_id). ike_id = ike_store_id) STORE_ID_MAP)
      in if cova_ids \<noteq> [] then cova_ids else [int_str ike_store_id])"

text \<open>
  The sales query: the rows of the date range and of the store's external identifiers,
  ordered by date and time; PostgreSQL puts a null time after the others.
\<close>

definition time_key :: "time option \<Rightarrow> nat \<times> time" where
  "time_key t = (case t of None \<Rightarrow> (1, 0) | Some v \<Rightarrow> (0, v))"

definition fetch_sales :: "sale list \<Rightarrow> date \<Rightarrow> date \<Rightarrow> string list \<Rightarrow> sale list" where
  "fetch_sales cova_sales from_date to_date cova_store_ids =
     sort_key (\<lambda>s. (sale_transaction_date s, time_key (sale_transaction_time s)))
       (filter (\<lambda>s. from_date \<le> sale_transaction_date s \<and> sale_transaction_date s \<le> to_date \<and>
                     sale_cova_store_id s \<in> set cova_store_ids) cova_sales)"

text \<open>
  \<open>_sale_to_movement\<close>: \<open>None\<close> when the row has no SKU or the catalog has no such product;
  \<open>abs\<close> of a null quantity raises \<open>TypeError\<close>.
\<close>

definition sale_to_movement :: "database \<Rightarrow> sale \<Rightarrow> int \<Rightarrow> error + movement option" where
  "sale_to_movement db sl store_id =
     (if \<not> truthy (sale_product_sku sl) then Inr None
      else
        (let sku = the (sale_product_sku sl) in
         case find_product db sku of
           None \<Rightarrow> Inr None
         | Some product \<Rightarrow>
            (let occurred_at = combine (sale_transaction_date sl)
                   (case sale_transaction_time sl of None \<Rightarrow> min_time | Some t \<Rightarrow> t)
             in case sale_quantity sl of
                  None \<Rightarrow> Inl (ServerError ''TypeError'')
                | Some q \<Rightarrow>
                   Inr (Some \<lparr> mv_store_id = store_id,
                               mv_product_id = prod_id product,
                               mv_sku = sku,
                               mv_movement_type = ''sale'',
                               mv_qty_delta = - \<bar>q\<bar>,
                               mv_occurred_at = occurred_at,
                               mv_source = ''cova_sync'',
                               mv_source_ref =
                                 Some (sale_transaction_id sl @ '':'' @
                                       int_str (sale_line_number sl)) \<rparr>))))"

text \<open>
  \<open>InventoryMovement.query.filter_by(store_id=..., sku=..., source_ref=...).first()\<close>. The
  session flushes pending rows before a query, so the movements added earlier in the same
  run are seen.
\<close>

definition existing_movement :: "movement list \<Rightarrow> int \<Rightarrow> movement \<Rightarrow> movement option" where
  "existing_movement ms store_id m =
     find (\<lambda>x. mv_store_id x = store_id \<and> mv_sku x = mv_sku m \<and>
                mv_source_ref x = mv_source_ref m) ms"

text \<open>
  The movements a forced re-sync deletes: those of the store, of the date range and of
  source \<open>cova_sync\<close>.
\<close>

definition resync_deletes :: "int \<Rightarrow> date \<Rightarrow> date \<Rightarrow> movement \<Rightarrow> bool" where
  "resync_deletes store_id from_date to_date m =
     (mv_store_id m = store_id \<and> from_date \<le> date_of (mv_occurred_at m) \<and>
      date_of (mv_occurred_at m) \<le> to_date \<and> mv_source m = ''cova_sync'')"

text \<open>One turn of the loop over the sales; an exception of the row is caught and recorded.\<close>

definition sync_row ::
  "database \<Rightarrow> int \<Rightarrow> bool \<Rightarrow> sale \<Rightarrow> movement list \<times> sync_stats \<Rightarrow> movement list \<times> sync_stats"
  where
  "sync_row db store_id force_resync sl acc =
     (let ms = fst acc; stats = snd acc in
      case sale_to_movement db sl store_id of
        Inl e \<Rightarrow> (ms, stats\<lparr> st_errors := st_errors stats @ [''TypeError''] \<rparr>)
      | Inr (Some m) \<Rightarrow>
          if existing_movement ms store_id m \<noteq> None \<and> \<not> force_resync
          then (ms, stats\<lparr> st_movements_skipped := st_movements_skipped stats + 1 \<rparr>)
          else (ms @ [m], stats\<lparr> st_movements_created := st_movements_created stats + 1 \<rparr>)
      | Inr None \<Rightarrow>
          (let stats1 =
                 (if truthy (sale_product_sku sl) \<and>
                     the (sale_product_sku sl) \<notin> set (st_products_not_found stats)
                  then stats\<lparr> st_products_not_found :=
                                 st_products_not_found stats @ [the (sale_product_sku sl)] \<rparr>
                  else stats)
           in (ms, stats1\<lparr> st_movements_skipped := st_movements_skipped stats1 + 1 \<rparr>)))"

fun sync_rows ::
  "database \<Rightarrow> int \<Rightarrow> bool \<Rightarrow> sale list \<Rightarrow> movement list \<times> sync_stats \<Rightarrow>
   movement list \<times> sync_stats" where
  "sync_rows db store_id force_resync [] acc = acc"
| "sync_rows db store_id force_resync (sl # sls) acc =
     sync_rows db store_id force_resync sls (sync_row db store_id force_resync sl acc)"

text \<open>
  \<open>sync_sales_to_movements\<close>, with today's date an argument. The sales query is taken to
  succeed; a failure of it rolls the transaction back and reports one error.
\<close>

definition sync_sales_to_movements ::
  "database \<Rightarrow> sale list \<Rightarrow> date \<Rightarrow> int \<Rightarrow> date option \<Rightarrow> date option \<Rightarrow> bool \<Rightarrow>
   sync_stats \<times> database" where
  "sync_sales_to_movements db cova_sales today store_id from_date to_date force_resync =
     (let from_d = (case from_date of None \<Rightarrow> today - 1 | Some d \<Rightarrow> d);
          to_d = (case to_date of None \<Rightarrow> today | Some d \<Rightarrow> d);
          stats = \<lparr> st_from_date = from_d, st_to_date = to_d, st_store_id = store_id,
                    st_sales_found = 0, st_movements_created = 0, st_movements_skipped = 0,
                    st_products_not_found = [], st_errors = [], st_movements_deleted = None \<rparr>;
          sales = fetch_sales cova_sales from_d to_d (get_cova_store_ids store_id);
          stats1 = stats\<lparr> st_sales_found := length sales \<rparr>;
          start =
            (if force_resync
             then (filter (\<lambda>m. \<not> resync_deletes store_id from_d to_d m) (movements db),
                   stats1\<lparr> st_movements_deleted :=
                     Some (length (filter (resync_deletes store_id from_d to_d) (movements db))) \<rparr>)
             else (movements db, stats1));
          result = sync_rows db store_id force_resync sales start
      in (snd result, db\<lparr> movements := fst result \<rparr>))"

text \<open>The movements the sales of a run resolve to, in order.\<close>

definition candidates :: "database \<Rightarrow> int \<Rightarrow> sale list \<Rightarrow> movement list" where
  "candidates db store_id sales =
     concat (map (\<lambda>sl. case sale_to_movement db sl store_id of
                          Inr (Some m) \<Rightarrow> [m] | _ \<Rightarrow> []) sales)"

text \<open>A movement of the store with the SKU and source reference of \<open>m\<close> is in the table.\<close>

definition has_key :: "movement list \<Rightarrow> int \<Rightarrow> movement \<Rightarrow> bool" where
  "has_key ms store_id m =
     (\<exists>x\<in>set ms. mv_store_id x = store_id \<and> mv_sku x = mv_sku m \<and>
                  mv_source_ref x = mv_source_ref m)"

section \<open>Operations\<close>

text \<open>
  The values \<open>add_line\<close> reads from its payload and the line it creates, named for the
  statements about them.
\<close>

definition req_qty :: "add_line_request \<Rightarrow> int" where
  "req_qty payload = (case al_counted_qty payload of None \<Rightarrow> 1 | Some q \<Rightarrow> q)"

definition req_notes :: "add_line_request \<Rightarrow> string option" where
  "req_notes payload = or_none (py_strip (get_str (al_notes payload) []))"

definition req_barcode :: "add_line_request \<Rightarrow> string" where
  "req_barcode payload = py_strip (get_str (al_barcode payload) [])"

definition new_line ::
  "int \<Rightarrow> datetime \<Rightarrow> string \<Rightarrow> string \<Rightarrow> add_line_request \<Rightarrow> product \<Rightarrow> count_line" where
  "new_line user_id now new_id pid payload product =
     \<lparr> line_id = new_id, line_count_pass_id = pid, line_product_id = prod_id product,
       line_sku = prod_sku product, line_barcode = Some (req_barcode payload),
       line_package_id = or_none (py_strip (get_str (al_package_id payload) [])),
       line_counted_qty = req_qty payload, line_unit = ''each'', line_captured_at = now,
       line_captured_by_user_id = user_id,
       line_confidence = py_strip (get_str (al_confidence payload) ''scanned''),
       line_notes = req_notes payload \<rparr>"

text \<open>The invariant of the lines: no two lines of a pass have the same SKU.\<close>

definition one_line_per_sku :: "database \<Rightarrow> bool" where
  "one_line_per_sku db = distinct (map (\<lambda>l. (line_count_pass_id l, line_sku l)) (lines db))"

text \<open>The state-changing endpoints, and the database each leaves behind.\<close>

datatype operation =
    CreateSession int datetime string "int option" "string option"
  | StartSession string
  | SubmitSession string
  | CreatePass int datetime string string create_pass_request
  | SubmitPass int datetime string
  | VoidPass string
  | AddLine int datetime string string add_line_request
  | UpdateLine int datetime string update_line_request
  | DeleteLine string
  | SyncSales "sale list" date int "date option" "date option" bool

fun apply_operation :: "operation \<Rightarrow> database \<Rightarrow> database" where
  "apply_operation (CreateSession u now nid store notes) db =
     snd (create_session db u now nid store notes)"
| "apply_operation (StartSession sid) db = snd (start_session db sid)"
| "apply_operation (SubmitSession sid) db = snd (submit_session db sid)"
| "apply_operation (CreatePass u now nid sid payload) db =
     snd (create_pass db u now nid sid payload)"
| "apply_operation (SubmitPass u now pid) db = snd (submit_pass db u now pid)"
| "apply_operation (VoidPass pid) db = snd (void_pass db pid)"
| "apply_operation (AddLine u now nid pid payload) db = snd (add_line db u now nid pid payload)"
| "apply_operation (UpdateLine u now lid payload) db = snd (update_line db u now lid payload)"
| "apply_operation (DeleteLine lid) db = snd (delete_line db lid)"
| "apply_operation (SyncSales cova_sales today store from_date to_date force) db =
     snd (sync_sales_to_movements db cova_sales today store from_date to_date force)"

section \<open>Example data\<close>

text \<open>
  A store with five catalog products, a count session with two submitted passes, one open
  pass and one voided pass, and three movements.
\<close>

definition mk_product :: "int \<Rightarrow> string \<Rightarrow> string option \<Rightarrow> string \<Rightarrow> string option \<Rightarrow> string option \<Rightarrow> product" where
  "mk_product i sku alt name cat sub =
     \<lparr> prod_id = i, prod_sku = sku, prod_cova_sku = alt, prod_name = name, prod_brand = None,
       prod_category = cat, prod_subcategory = sub \<rparr>"

definition mk_pass ::
  "string \<Rightarrow> string \<Rightarrow> string \<Rightarrow> string option \<Rightarrow> string option \<Rightarrow> datetime \<Rightarrow> datetime option \<Rightarrow> count_pass" where
  "mk_pass i sid st cat sub started submitted =
     \<lparr> pass_id = i, pass_session_id = sid, pass_location_id = 1, pass_category = cat,
       pass_subcategory = sub, pass_started_at = started, pass_submitted_at = submitted,
       pass_started_by_user_id = 7, pass_submitted_by_user_id = map_option (\<lambda>_. 7) submitted,
       pass_status = st, pass_device_id = None, pass_scan_mode = ''scanner'' \<rparr>"

definition mk_line :: "string \<Rightarrow> string \<Rightarrow> int \<Rightarrow> string \<Rightarrow> int \<Rightarrow> count_line" where
  "mk_line i pid pr sku qty =
     \<lparr> line_id = i, line_count_pass_id = pid, line_product_id = pr, line_sku = sku,
       line_barcode = Some sku, line_package_id = None, line_counted_qty = qty,
       line_unit = ''each'', line_captured_at = (0, 1), line_captured_by_user_id = 7,
       line_confidence = ''scanned'', line_notes = None \<rparr>"

definition mk_movement :: "int \<Rightarrow> int \<Rightarrow> string \<Rightarrow> int \<Rightarrow> datetime \<Rightarrow> string \<Rightarrow> movement" where
  "mk_movement store pr sku delta at ref =
     \<lparr> mv_store_id = store, mv_product_id = pr, mv_sku = sku, mv_movement_type = ''sale'',
       mv_qty_delta = delta, mv_occurred_at = at, mv_source = ''cova_sync'',
       mv_source_ref = Some ref \<rparr>"

definition shop :: database where
  "shop =
     \<lparr> stores = [1, 2],
       products =
         [mk_product 1 ''A'' (Some ''X'') ''Alpha'' (Some ''Flower'') (Some ''Dried Flower''),
          mk_product 2 ''B'' None ''Beta'' (Some ''Edibles'') (Some ''Gummies''),
          mk_product 3 ''C'' None ''Gamma'' None None,
          mk_product 4 ''D'' None ''Delta'' None (Some ''Gummies''),
          mk_product 5 ''E'' None ''Epsilon'' (Some ''FLOWER'') None],
       inventory_items =
         [\<lparr> item_store_id = 1, item_product_id = 1, item_current_quantity = Some 10 \<rparr>,
          \<lparr> item_store_id = 1, item_product_id = 2, item_current_quantity = Some 5 \<rparr>,
          \<lparr> item_store_id = 1, item_product_id = 3, item_current_quantity = Some 0 \<rparr>,
          \<lparr> item_store_id = 1, item_product_id = 5, item_current_quantity = Some 1 \<rparr>,
          \<lparr> item_store_id = 2, item_product_id = 1, item_current_quantity = Some 40 \<rparr>],
       locations = [\<lparr> loc_id = 1, loc_store_id = 1, loc_code = ''FOH'', loc_name = ''Front'' \<rparr>],
       sessions =
         [\<lparr> sess_id = ''s1'', sess_store_id = 1, sess_created_by_user_id = 7,
            sess_status = ''in_progress'', sess_expected_snapshot_at = Some (0, 0),
            sess_notes = None \<rparr>],
       passes =
         [mk_pass ''p1'' ''s1'' ''submitted'' None None (0, 0) (Some (0, 10)),
          mk_pass ''p2'' ''s1'' ''submitted'' None None (0, 20) (Some (0, 30)),
          mk_pass ''p3'' ''s1'' ''in_progress'' (Some ''Flower'') (Some ''Dried Flower'') (0, 40) None,
          mk_pass ''p4'' ''s1'' ''voided'' None None (0, 2) (Some (0, 3))],
       lines =
         [mk_line ''l1'' ''p1'' 1 ''A'' 8,
          mk_line ''l2'' ''p2'' 2 ''B'' 2,
          mk_line ''l3'' ''p3'' 1 ''A'' 100,
          mk_line ''l4'' ''p4'' 2 ''B'' 50],
       movements =
         [mk_movement 1 1 ''A'' (- 3) (0, 15) ''T1:1'',
          mk_movement 1 2 ''B'' (- 1) (0, 35) ''T2:1'',
          mk_movement 2 1 ''A'' (- 7) (0, 5) ''T3:1''] \<rparr>"

text \<open>The report of session \<open>s1\<close> of the example database.\<close>

definition shop_item :: "string \<Rightarrow> string \<Rightarrow> string option \<Rightarrow> string option \<Rightarrow> int \<Rightarrow> int \<Rightarrow> int \<Rightarrow> variance_item" where
  "shop_item sku name cat sub counted baseline movement =
     \<lparr> vi_sku = sku, vi_product_name = Some name, vi_brand = None, vi_category = cat,
       vi_subcategory = sub, vi_counted_qty = counted, vi_baseline_qty = baseline,
       vi_movement_delta = movement, vi_expected_qty = baseline + movement,
       vi_variance = counted - (baseline + movement) \<rparr>"

definition shop_report :: variance_report where
  "shop_report =
     \<lparr> vr_session_id = ''s1'', vr_store_id = 1, vr_status = ''in_progress'',
       vr_total_skus = 4, vr_total_variance = 5,
       vr_items =
         [shop_item ''B'' ''Beta'' (Some ''Edibles'') (Some ''Gummies'') 2 5 0,
          shop_item ''A'' ''Alpha'' (Some ''Flower'') (Some ''Dried Flower'') 8 10 (- 3),
          shop_item ''E'' ''Epsilon'' (Some ''FLOWER'') None 0 1 0,
          shop_item ''C'' ''Gamma'' None None 0 0 0] \<rparr>"


text \<open>Requests and lines of the examples.\<close>

definition scan :: "string \<Rightarrow> int option \<Rightarrow> add_line_request" where
  "scan code qty =
     \<lparr> al_barcode = Some code, al_counted_qty = qty, al_package_id = None,
       al_confidence = None, al_notes = None \<rparr>"

definition open_pass :: count_pass where
  "open_pass = mk_pass ''p3'' ''s1'' ''in_progress'' (Some ''Flower'') (Some ''Dried Flower'') (0, 40) None"

definition first_scan :: count_line where
  "first_scan = (mk_line ''l9'' ''p3'' 3 ''C'' 1)\<lparr> line_captured_at := (0, 50) \<rparr>"

definition second_scan :: count_line where
  "second_scan = (mk_line ''l9'' ''p3'' 3 ''C'' 5)\<lparr> line_captured_at := (0, 51) \<rparr>"

definition alternate_scan :: add_line_request where
  "alternate_scan =
     \<lparr> al_barcode = Some '' X '', al_counted_qty = Some 2, al_package_id = Some ''LOT-9'',
       al_confidence = Some ''typed'', al_notes = Some ''  '' \<rparr>"

definition merged_line :: count_line where
  "merged_line = (mk_line ''l3'' ''p3'' 1 ''A'' 102)\<lparr> line_captured_at := (0, 50) \<rparr>"

definition counted_shop :: database where
  "counted_shop = snd (void_pass shop ''p3'')"

text \<open>Sales of the examples.\<close>

definition mk_sale ::
  "string \<Rightarrow> int \<Rightarrow> string \<Rightarrow> date \<Rightarrow> time option \<Rightarrow> string option \<Rightarrow> int option \<Rightarrow> sale" where
  "mk_sale tid ln cova_store d t sku qty =
     \<lparr> sale_transaction_id = tid, sale_line_number = ln, sale_cova_store_id = cova_store,
       sale_transaction_date = d, sale_transaction_time = t, sale_product_sku = sku,
       sale_quantity = qty \<rparr>"

definition day_sales :: "sale list" where
  "day_sales =
     [mk_sale ''T2'' 1 ''1'' 0 (Some 35) (Some ''B'') (Some (- 1)),
      mk_sale ''T1'' 1 ''kingsway'' 0 (Some 15) (Some ''A'') (Some 3),
      mk_sale ''T4'' 1 ''kingsway'' 0 None (Some ''ZZZ'') (Some 1),
      mk_sale ''T5'' 1 ''fraser'' 0 (Some 20) (Some ''A'') (Some 1),
      mk_sale ''T6'' 2 ''kingsway'' 3 (Some 20) (Some ''A'') (Some 1)]"

definition dup_sales :: "sale list" where
  "dup_sales =
     [mk_sale ''T9'' 1 ''kingsway'' 0 (Some 5) (Some ''A'') (Some 1),
      mk_sale ''T9'' 1 ''Kingsway'' 0 (Some 6) (Some ''A'') (Some 2)]"

definition empty_ledger :: database where
  "empty_ledger = shop\<lparr> movements := [] \<rparr>"

section \<open>Properties of the Python values\<close>

lemma map_of_fold_update:
  "map_of (fold (\<lambda>(k, v) d. AList.update k v d) rows d0) k =
     (case map_of (rev rows) k of None \<Rightarrow> map_of d0 k | Some v \<Rightarrow> Some v)"
proof (induction rows arbitrary: d0)
  case Nil
  show ?case by simp
next
  case (Cons r rows)
  obtain a b where r: "r = (a, b)" by (cases r)
  show ?case
    by (simp add: Cons.IH r update_conv' map_add_def split: option.splits)
qed

lemma map_of_dict_of: "map_of (dict_of rows) k = map_of (rev rows) k"
  by (simp add: dict_of_def map_of_fold_update split: option.splits)

lemma keys_fold_update:
  "fst ` set (fold (\<lambda>(k, v) d. AList.update k v d) rows d0) = fst ` set rows \<union> fst ` set d0"
proof (induction rows arbitrary: d0)
  case Nil
  show ?case by simp
next
  case (Cons r rows)
  obtain a b where r: "r = (a, b)" by (cases r)
  show ?case by (auto simp: Cons.IH r dom_update)
qed

lemma set_dict_keys: "set (dict_keys (dict_of rows)) = fst ` set rows"
  by (simp add: dict_keys_def dict_of_def keys_fold_update)

lemma map_of_graph:
  "map_of (map (\<lambda>k. (k, f k)) ks) k = (if k \<in> set ks then Some (f k) else None)"
  by (induction ks) auto

lemma filter_key_empty:
  "k \<notin> fst ` set rows \<Longrightarrow> filter (\<lambda>r. fst r = k) rows = []"
  by (auto simp: filter_empty_conv)

lemma dict_get_group_sum:
  "dict_get (dict_of (group_sum rows)) k 0 = sum_list (map snd (filter (\<lambda>r. fst r = k) rows))"
proof -
  have "map_of (rev (group_sum rows)) k =
          (if k \<in> fst ` set rows
           then Some (sum_list (map snd (filter (\<lambda>r. fst r = k) rows))) else None)"
    unfolding group_sum_def rev_map by (simp add: map_of_graph)
  then show ?thesis
    by (simp add: dict_get_def map_of_dict_of filter_key_empty)
qed


lemma map_of_rev_last:
  "map_of (rev rows) k =
     (if filter (\<lambda>r. fst r = k) rows = [] then None
      else Some (snd (last (filter (\<lambda>r. fst r = k) rows))))"
proof (induction rows rule: rev_induct)
  case Nil
  show ?case by simp
next
  case (snoc r rows)
  show ?case by (cases r) (auto simp: snoc.IH)
qed

lemma build_results_item:
  "item \<in> set (build_results nz cnt bl mv info skus) \<Longrightarrow>
     vi_sku item \<in> set skus \<and>
     vi_counted_qty item = dict_get cnt (vi_sku item) 0 \<and>
     vi_baseline_qty item = dict_get bl (vi_sku item) 0 \<and>
     vi_movement_delta item = dict_get mv (vi_sku item) 0 \<and>
     vi_expected_qty item = vi_baseline_qty item + vi_movement_delta item \<and>
     vi_variance item = vi_counted_qty item - vi_expected_qty item \<and>
     (nz \<longrightarrow> vi_variance item \<noteq> 0)"
  by (induction skus) (auto simp: Let_def split: if_splits)

lemma build_results_skus:
  "map vi_sku (build_results nz cnt bl mv info skus) =
     filter (\<lambda>k. \<not> (nz \<and> dict_get cnt k 0 - (dict_get bl k 0 + dict_get mv k 0) = 0)) skus"
  by (induction skus) (auto simp: Let_def)

lemma set_sort_reverse: "set (sort_reverse f xs) = set xs"
  by (simp add: sort_reverse_def)



lemma concat_map_if:
  "concat (map (\<lambda>x. if P x then [f x] else []) xs) = map f (filter P xs)"
  by (induction xs) auto

lemma join_unique:
  "distinct (map f ps) \<Longrightarrow>
     concat (map (\<lambda>p. if c = f p then if B p then [x] else [] else []) ps) =
       (if \<exists>p\<in>set ps. c = f p \<and> B p then [x] else [])"
proof (induction ps)
  case Nil
  show ?case by simp
next
  case (Cons p ps)
  then show ?case by (auto simp: image_iff)
qed

lemma counted_join_sum:
  assumes "distinct (map pass_id ps)"
  shows "sum_list (map snd (filter (\<lambda>r. fst r = k)
           [(line_sku l, line_counted_qty l). l \<leftarrow> ls, p \<leftarrow> ps,
              line_count_pass_id l = pass_id p, B p])) =
         sum_list [line_counted_qty l. l \<leftarrow> ls,
              line_sku l = k \<and> (\<exists>p\<in>set ps. line_count_pass_id l = pass_id p \<and> B p)]"
proof (induction ls)
  case Nil
  show ?case by simp
next
  case (Cons l ls)
  show ?case using Cons.IH by (auto simp: join_unique [OF assms])
qed

lemma insort_tie_order:
  assumes "sorted_wrt (\<lambda>a b. k a < k b \<or> (k a = k b \<and> s b < s a)) zs"
      and "\<forall>b\<in>set zs. s b < s x"
  shows "sorted_wrt (\<lambda>a b. k a < k b \<or> (k a = k b \<and> s b < s a)) (insort_key k x zs)"
  using assms
proof (induction zs)
  case Nil
  show ?case by simp
next
  case (Cons z zs)
  show ?case
  proof (cases "k x \<le> k z")
    case True
    have "\<forall>b\<in>set zs. k z \<le> k b" using Cons.prems(1) by auto
    with True Cons.prems show ?thesis by (auto simp: less_le)
  next
    case False
    with Cons show ?thesis by (auto simp: set_insort_key)
  qed
qed

lemma sort_key_tie_order:
  "sorted_wrt (\<lambda>a b. s b < s a) ys \<Longrightarrow>
     sorted_wrt (\<lambda>a b. k a < k b \<or> (k a = k b \<and> s b < s a)) (sort_key k ys)"
  by (induction ys) (auto intro: insort_tie_order)

lemma sort_reverse_order:
  fixes k :: "'a \<Rightarrow> 'k::linorder" and s :: "'a \<Rightarrow> 's::order"
  assumes "sorted_wrt (\<lambda>a b. s a < s b) rs"
  shows "sorted_wrt (\<lambda>a b. k b < k a \<or> (k a = k b \<and> s a < s b)) (sort_reverse k rs)"
proof -
  have "sorted_wrt (\<lambda>a b. s b < s a) (rev rs)"
    using assms by (simp add: sorted_wrt_rev)
  then have "sorted_wrt (\<lambda>a b. k a < k b \<or> (k a = k b \<and> s b < s a)) (sort_key k (rev rs))"
    by (rule sort_key_tie_order)
  then have "sorted_wrt (\<lambda>a b. k b < k a \<or> (k b = k a \<and> s a < s b)) (sort_reverse k rs)"
    by (simp add: sort_reverse_def sorted_wrt_rev)
  then show ?thesis by (rule sorted_wrt_mono_rel [rotated]) auto
qed

lemma build_results_sorted:
  "sorted_wrt (<) skus \<Longrightarrow>
     sorted_wrt (\<lambda>a b. vi_sku a < vi_sku b) (build_results nz cnt bl mv info skus)"
proof -
  assume "sorted_wrt (<) skus"
  then have "sorted_wrt (<) (map vi_sku (build_results nz cnt bl mv info skus))"
    unfolding build_results_skus by (rule sorted_wrt_filter)
  then show ?thesis by (simp add: sorted_wrt_map)
qed

lemma baseline_inner:
  "map snd (filter (\<lambda>r. fst r = k)
      (concat (map (\<lambda>it. if c1 it then if c2 it then [(a, g it)] else [] else []) its))) =
   concat (map (\<lambda>it. if c1 it \<and> c2 it \<and> a = k then [g it] else []) its)"
  by (induction its) auto

lemma join_rows_for_key:
  "map snd (filter (\<lambda>r. fst r = k)
      [(f pr, g it). pr \<leftarrow> prs, it \<leftarrow> its, c1 it pr, c2 it]) =
   [g it. pr \<leftarrow> prs, it \<leftarrow> its, c1 it pr \<and> c2 it \<and> f pr = k]"
  by (induction prs) (simp_all add: baseline_inner)

lemma dict_get_last:
  "dict_get (dict_of (map (\<lambda>(k, q). (k, h q)) rows)) k 0 =
     (let qs = map snd (filter (\<lambda>r. fst r = k) rows)
      in if qs = [] then 0 else h (last qs))"
proof -
  have f: "filter (\<lambda>r. fst r = k) (map (\<lambda>p. (fst p, h (snd p))) rows) =
           map (\<lambda>p. (fst p, h (snd p))) (filter (\<lambda>r. fst r = k) rows)"
    by (induction rows) auto
  show ?thesis
    by (simp add: dict_get_def map_of_dict_of map_of_rev_last f Let_def last_map
        case_prod_unfold)
qed

section \<open>Properties of the variance report\<close>

lemma get_variance_structure:
  assumes "get_variance db sid arg = Inr report"
  shows "\<exists>s deltas info.
           get_session db sid = Some s \<and>
           movement_deltas db sid (sess_store_id s) = Inr deltas \<and>
           vr_items report =
             sort_reverse (\<lambda>x. \<bar>vi_variance x\<bar>)
               (build_results (py_lower arg \<in> set [''true'', ''1'', ''yes''])
                  (dict_of (counted_query db sid))
                  (dict_of (map (\<lambda>(k, q). (k, or_zero q)) (baseline_query db (sess_store_id s))))
                  deltas info
                  (sorted_list_of_set
                     (fst ` set (counted_query db sid) \<union>
                      fst ` set (baseline_query db (sess_store_id s)))))"
  using assms
  by (auto simp: get_variance_def Let_def set_dict_keys image_image case_prod_unfold
           split: option.splits sum.splits)

lemma shop_variance: "get_variance shop ''s1'' [] = Inr shop_report"
  by code_simp

text \<open>
  C1. For a session and every item of its variance report: the counted quantity is the sum
  of \<open>counted_qty\<close> over the lines of the session's submitted passes with the item's SKU
  (lines of passes in any other status contribute nothing); the baseline is the quantity of
  the store's inventory row for a catalog product with that SKU, or 0 when there is none or
  it is null (the last such row in query order, should several products share the SKU);
  expected is baseline plus movement delta and variance is counted minus expected, in
  integer arithmetic. Pass identifiers are a primary key.
\<close>

theorem variance_item_values:
  assumes pk: "distinct (map pass_id (passes db))"
      and sess: "get_session db sid = Some s"
      and rep: "get_variance db sid arg = Inr report"
      and item: "item \<in> set (vr_items report)"
  shows "vi_counted_qty item =
           sum_list [line_counted_qty l. l \<leftarrow> lines db,
              line_sku l = vi_sku item \<and>
              (\<exists>p\<in>set (passes db). line_count_pass_id l = pass_id p \<and>
                  pass_session_id p = sid \<and> pass_status p = ''submitted'')] \<and>
         vi_baseline_qty item =
           (let qs = [item_current_quantity it. pr \<leftarrow> products db, it \<leftarrow> inventory_items db,
                        item_product_id it = prod_id pr \<and> item_store_id it = sess_store_id s \<and>
                        prod_sku pr = vi_sku item]
            in if qs = [] then 0 else or_zero (last qs)) \<and>
         vi_expected_qty item = vi_baseline_qty item + vi_movement_delta item \<and>
         vi_variance item = vi_counted_qty item - vi_expected_qty item"
proof -
  from get_variance_structure [OF rep] sess obtain deltas info where
    items: "vr_items report =
             sort_reverse (\<lambda>x. \<bar>vi_variance x\<bar>)
               (build_results (py_lower arg \<in> set [''true'', ''1'', ''yes''])
                  (dict_of (counted_query db sid))
                  (dict_of (map (\<lambda>(k, q). (k, or_zero q)) (baseline_query db (sess_store_id s))))
                  deltas info
                  (sorted_list_of_set
                     (fst ` set (counted_query db sid) \<union>
                      fst ` set (baseline_query db (sess_store_id s)))))"
    by auto
  from item have b: "item \<in> set (build_results (py_lower arg \<in> set [''true'', ''1'', ''yes''])
                  (dict_of (counted_query db sid))
                  (dict_of (map (\<lambda>(k, q). (k, or_zero q)) (baseline_query db (sess_store_id s))))
                  deltas info
                  (sorted_list_of_set
                     (fst ` set (counted_query db sid) \<union>
                      fst ` set (baseline_query db (sess_store_id s)))))"
    unfolding items set_sort_reverse .
  note vals = build_results_item [OF b]
  have c: "vi_counted_qty item = sum_list [line_counted_qty l. l \<leftarrow> lines db,
              line_sku l = vi_sku item \<and>
              (\<exists>p\<in>set (passes db). line_count_pass_id l = pass_id p \<and>
                  pass_session_id p = sid \<and> pass_status p = ''submitted'')]"
    using vals counted_join_sum [OF pk, where k = "vi_sku item" and ls = "lines db"
        and B = "\<lambda>p. pass_session_id p = sid \<and> pass_status p = ''submitted''"]
    by (simp add: counted_query_def dict_get_group_sum)
  have bl: "vi_baseline_qty item =
           (let qs = [item_current_quantity it. pr \<leftarrow> products db, it \<leftarrow> inventory_items db,
                        item_product_id it = prod_id pr \<and> item_store_id it = sess_store_id s \<and>
                        prod_sku pr = vi_sku item]
            in if qs = [] then 0 else or_zero (last qs))"
    using vals
      join_rows_for_key [where k = "vi_sku item" and f = prod_sku
        and g = item_current_quantity and prs = "products db" and its = "inventory_items db"
        and ?c1.0 = "\<lambda>it pr. item_product_id it = prod_id pr"
        and ?c2.0 = "\<lambda>it. item_store_id it = sess_store_id s"]
    by (simp add: dict_get_last baseline_query_def)
  show ?thesis using c bl vals by simp
qed

theorem variance_item_values_witness:
  "distinct (map pass_id (passes shop)) \<and>
   get_variance shop ''s1'' [] = Inr shop_report \<and>
   vi_counted_qty (shop_item ''A'' ''Alpha'' (Some ''Flower'') (Some ''Dried Flower'') 8 10 (- 3)) = 8 \<and>
   vi_baseline_qty (shop_item ''A'' ''Alpha'' (Some ''Flower'') (Some ''Dried Flower'') 8 10 (- 3)) = 10 \<and>
   vi_expected_qty (shop_item ''A'' ''Alpha'' (Some ''Flower'') (Some ''Dried Flower'') 8 10 (- 3)) = 7 \<and>
   vi_variance (shop_item ''A'' ''Alpha'' (Some ''Flower'') (Some ''Dried Flower'') 8 10 (- 3)) = 1 \<and>
   sum_list [line_counted_qty l. l \<leftarrow> lines shop,
      line_sku l = ''A'' \<and>
      (\<exists>p\<in>set (passes shop). line_count_pass_id l = pass_id p \<and>
          pass_session_id p = ''s1'' \<and> pass_status p = ''submitted'')] = 8"
proof -
  let ?a = "shop_item ''A'' ''Alpha'' (Some ''Flower'') (Some ''Dried Flower'') 8 10 (- 3)"
  have pk: "distinct (map pass_id (passes shop))"
    by (simp add: shop_def mk_pass_def)
  have sess: "get_session shop ''s1'' = Some (hd (sessions shop))"
    by (simp add: shop_def get_session_def)
  have item: "?a \<in> set (vr_items shop_report)"
    by (simp add: shop_report_def)
  have sku: "vi_sku ?a = ''A''" and cnt: "vi_counted_qty ?a = 8"
    by (simp_all add: shop_item_def)
  from variance_item_values [OF pk sess shop_variance item]
  have "sum_list [line_counted_qty l. l \<leftarrow> lines shop,
      line_sku l = ''A'' \<and>
      (\<exists>p\<in>set (passes shop). line_count_pass_id l = pass_id p \<and>
          pass_session_id p = ''s1'' \<and> pass_status p = ''submitted'')] = 8"
    unfolding sku cnt by simp
  then show ?thesis using pk shop_variance by (simp add: shop_item_def)
qed

text \<open>
  C9. The items of a variance report are in descending order of absolute variance, and
  items of equal absolute variance are in ascending order of SKU.
\<close>

theorem variance_items_order:
  assumes rep: "get_variance db sid arg = Inr report"
  shows "sorted_wrt (\<lambda>a b. \<bar>vi_variance b\<bar> < \<bar>vi_variance a\<bar> \<or>
                            (\<bar>vi_variance a\<bar> = \<bar>vi_variance b\<bar> \<and> vi_sku a < vi_sku b))
           (vr_items report)"
proof -
  from get_variance_structure [OF rep] obtain nz cnt bl deltas info S where
    items: "vr_items report =
             sort_reverse (\<lambda>x. \<bar>vi_variance x\<bar>)
               (build_results nz cnt bl deltas info (sorted_list_of_set S))"
    by blast
  have "sorted_wrt (<) (sorted_list_of_set S)"
    by (simp add: strict_sorted_iff)
  then have "sorted_wrt (\<lambda>a b. vi_sku a < vi_sku b)
               (build_results nz cnt bl deltas info (sorted_list_of_set S))"
    by (rule build_results_sorted)
  then show ?thesis unfolding items by (rule sort_reverse_order)
qed

theorem variance_items_order_witness:
  "get_variance shop ''s1'' [] = Inr shop_report \<and>
   sorted_wrt (\<lambda>a b. \<bar>vi_variance b\<bar> < \<bar>vi_variance a\<bar> \<or>
                      (\<bar>vi_variance a\<bar> = \<bar>vi_variance b\<bar> \<and> vi_sku a < vi_sku b))
     (vr_items shop_report) \<and>
   map (\<lambda>i. (vi_sku i, vi_variance i)) (vr_items shop_report) =
     [(''B'', - 3), (''A'', 1), (''E'', - 1), (''C'', 0)]"
proof -
  have "map (\<lambda>i. (vi_sku i, vi_variance i)) (vr_items shop_report) =
     [(''B'', - 3), (''A'', 1), (''E'', - 1), (''C'', 0)]"
    by (simp add: shop_report_def shop_item_def)
  with shop_variance variance_items_order [OF shop_variance] show ?thesis by blast
qed




















section \<open>Properties of the line operations\<close>

lemma add_line_Inr:
  assumes "add_line db u now nid pid req = (Inr r, db')"
  shows "\<exists>p pr. get_pass db pid = Some p \<and> pass_status p = ''in_progress'' \<and>
           req_barcode req \<noteq> [] \<and>
           find_product db (req_barcode req) = Some pr \<and>
           \<not> scope_conflict (pass_category p) (prod_category pr) \<and>
           \<not> scope_conflict (pass_subcategory p) (prod_subcategory pr) \<and>
           (case existing_line db pid (prod_sku pr) of
              Some ex \<Rightarrow>
                r = \<lparr> alr_line = increment_line ex (req_qty req) now u (req_notes req) ex,
                      alr_incremented = True,
                      alr_previous_qty = Some (line_counted_qty ex),
                      alr_product = None \<rparr> \<and>
                db' = db\<lparr> lines := map (\<lambda>l. if line_id l = line_id ex
                           then increment_line ex (req_qty req) now u (req_notes req) l else l)
                         (lines db) \<rparr>
            | None \<Rightarrow>
                r = \<lparr> alr_line = new_line u now nid pid req pr, alr_incremented = False,
                      alr_previous_qty = None, alr_product = Some pr \<rparr> \<and>
                db' = db\<lparr> lines := lines db @ [new_line u now nid pid req pr] \<rparr>)"
  using assms
  by (auto simp: add_line_def Let_def req_qty_def req_notes_def req_barcode_def new_line_def
        increment_line_def
      split: option.splits if_splits)


lemma increment_line_keys [simp]:
  "line_count_pass_id (increment_line ex q now u n l) = line_count_pass_id l"
  "line_sku (increment_line ex q now u n l) = line_sku l"
  "line_id (increment_line ex q now u n l) = line_id l"
  "line_barcode (increment_line ex q now u n l) = line_barcode l"
  "line_package_id (increment_line ex q now u n l) = line_package_id l"
  "line_unit (increment_line ex q now u n l) = line_unit l"
  "line_confidence (increment_line ex q now u n l) = line_confidence l"
  "line_product_id (increment_line ex q now u n l) = line_product_id l"
  "line_counted_qty (increment_line ex q now u n l) = line_counted_qty ex + q"
  "line_captured_at (increment_line ex q now u n l) = now"
  "line_captured_by_user_id (increment_line ex q now u n l) = u"
  "line_notes (increment_line ex q now u n l) = (if truthy n then n else line_notes l)"
  by (simp_all add: increment_line_def Let_def)

lemma correct_line_keys [simp]:
  "line_count_pass_id (correct_line payload now u l) = line_count_pass_id l"
  "line_sku (correct_line payload now u l) = line_sku l"
  by (simp_all add: correct_line_def)

lemma find_Some_mem: "find P xs = Some x \<Longrightarrow> x \<in> set xs \<and> P x"
  by (induction xs) (auto split: if_splits)

lemma find_None_all: "find P xs = None \<Longrightarrow> \<forall>x\<in>set xs. \<not> P x"
  by (induction xs) (auto split: if_splits)

lemma find_map_keys:
  "(\<And>x. P (g x) = P x) \<Longrightarrow> find P (map g xs) = map_option g (find P xs)"
  by (induction xs) auto

lemma keys_map_if:
  assumes "\<And>l. k (g l) = k l"
  shows "map k (map (\<lambda>l. if c l then g l else l) xs) = map k xs"
  by (induction xs) (auto simp: assms)

lemma lines_add_line_error:
  "add_line db u now nid pid req = (Inl e, db') \<Longrightarrow> db' = db"
  by (auto simp: add_line_def Let_def split: option.splits if_splits)

lemma add_line_invariant:
  assumes "one_line_per_sku db"
  shows "one_line_per_sku (snd (add_line db u now nid pid req))"
proof (cases "add_line db u now nid pid req")
  case (Pair res db')
  show ?thesis
  proof (cases res)
    case (Inl e)
    with Pair lines_add_line_error [of db u now nid pid req e db'] assms show ?thesis by simp
  next
    case (Inr r)
    from add_line_Inr [OF Pair [unfolded Inr]] obtain p pr where
      c: "case existing_line db pid (prod_sku pr) of
              Some ex \<Rightarrow>
                r = \<lparr> alr_line = increment_line ex (req_qty req) now u (req_notes req) ex,
                      alr_incremented = True,
                      alr_previous_qty = Some (line_counted_qty ex),
                      alr_product = None \<rparr> \<and>
                db' = db\<lparr> lines := map (\<lambda>l. if line_id l = line_id ex
                           then increment_line ex (req_qty req) now u (req_notes req) l else l)
                         (lines db) \<rparr>
            | None \<Rightarrow>
                r = \<lparr> alr_line = new_line u now nid pid req pr, alr_incremented = False,
                      alr_previous_qty = None, alr_product = Some pr \<rparr> \<and>
                db' = db\<lparr> lines := lines db @ [new_line u now nid pid req pr] \<rparr>"
      by blast
    show ?thesis
    proof (cases "existing_line db pid (prod_sku pr)")
      case None
      from find_None_all [OF None [unfolded existing_line_def]]
      have "(pid, prod_sku pr) \<notin> set (map (\<lambda>l. (line_count_pass_id l, line_sku l)) (lines db))"
        by auto
      with c None assms Pair show ?thesis
        by (simp add: one_line_per_sku_def new_line_def)
    next
      case (Some ex)
      with c have "map (\<lambda>l. (line_count_pass_id l, line_sku l)) (lines db') =
                   map (\<lambda>l. (line_count_pass_id l, line_sku l)) (lines db)"
        by (simp add: keys_map_if)
      with assms Pair show ?thesis by (simp add: one_line_per_sku_def)
    qed
  qed
qed

lemma update_line_invariant:
  assumes "one_line_per_sku db"
  shows "one_line_per_sku (snd (update_line db u now lid payload))"
proof -
  have "map (\<lambda>l. (line_count_pass_id l, line_sku l))
          (map (\<lambda>l. if line_id l = lid then correct_line payload now u l else l) (lines db)) =
        map (\<lambda>l. (line_count_pass_id l, line_sku l)) (lines db)"
    by (rule keys_map_if) simp
  with assms show ?thesis
    by (auto simp: update_line_def one_line_per_sku_def simp del: map_map split: option.splits)
qed

lemma delete_line_invariant:
  assumes "one_line_per_sku db"
  shows "one_line_per_sku (snd (delete_line db lid))"
  using assms
  by (auto simp: delete_line_def one_line_per_sku_def distinct_map_filter split: option.splits)

lemma other_operations_lines:
  "lines (snd (create_session db u now nid store notes)) = lines db"
  "lines (snd (start_session db sid)) = lines db"
  "lines (snd (submit_session db sid)) = lines db"
  "lines (snd (create_pass db u now nid sid cp)) = lines db"
  "lines (snd (submit_pass db u now pid)) = lines db"
  "lines (snd (void_pass db pid)) = lines db"
  "lines (snd (sync_sales_to_movements db cova_sales today st from_date to_date force)) =
     lines db"
  by (auto simp: create_session_def start_session_def submit_session_def create_pass_def
        submit_pass_def void_pass_def sync_sales_to_movements_def set_session_status_def Let_def
      split: option.splits)

lemma apply_operation_invariant:
  "one_line_per_sku db \<Longrightarrow> one_line_per_sku (apply_operation opn db)"
  by (cases opn)
     (simp_all add: add_line_invariant update_line_invariant delete_line_invariant,
      simp_all add: one_line_per_sku_def other_operations_lines)

lemma add_line_sku:
  assumes "add_line db u now nid pid req = (Inr r, db')"
  shows "\<exists>pr. find_product db (req_barcode req) = Some pr \<and>
           line_sku (alr_line r) = prod_sku pr \<and> line_count_pass_id (alr_line r) = pid"
proof -
  from add_line_Inr [OF assms] obtain p pr where
    pr: "find_product db (req_barcode req) = Some pr"
    and c: "case existing_line db pid (prod_sku pr) of
              Some ex \<Rightarrow>
                r = \<lparr> alr_line = increment_line ex (req_qty req) now u (req_notes req) ex,
                      alr_incremented = True,
                      alr_previous_qty = Some (line_counted_qty ex),
                      alr_product = None \<rparr> \<and>
                db' = db\<lparr> lines := map (\<lambda>l. if line_id l = line_id ex
                           then increment_line ex (req_qty req) now u (req_notes req) l else l)
                         (lines db) \<rparr>
            | None \<Rightarrow>
                r = \<lparr> alr_line = new_line u now nid pid req pr, alr_incremented = False,
                      alr_previous_qty = None, alr_product = Some pr \<rparr> \<and>
                db' = db\<lparr> lines := lines db @ [new_line u now nid pid req pr] \<rparr>"
    by blast
  show ?thesis
  proof (cases "existing_line db pid (prod_sku pr)")
    case None
    with c pr show ?thesis by (simp add: new_line_def)
  next
    case (Some ex)
    from find_Some_mem [OF Some [unfolded existing_line_def]] c Some pr
    show ?thesis by simp
  qed
qed

lemma add_line_increments:
  assumes a: "add_line db u now nid pid req = (Inr r, db')"
      and e: "existing_line db pid (line_sku (alr_line r)) = Some ex"
  shows "r = \<lparr> alr_line = increment_line ex (req_qty req) now u (req_notes req) ex,
               alr_incremented = True, alr_previous_qty = Some (line_counted_qty ex),
               alr_product = None \<rparr> \<and>
         db' = db\<lparr> lines := map (\<lambda>l. if line_id l = line_id ex
                    then increment_line ex (req_qty req) now u (req_notes req) l else l)
                  (lines db) \<rparr>"
proof -
  from add_line_Inr [OF a] obtain p pr where
    c: "case existing_line db pid (prod_sku pr) of
              Some ex \<Rightarrow>
                r = \<lparr> alr_line = increment_line ex (req_qty req) now u (req_notes req) ex,
                      alr_incremented = True,
                      alr_previous_qty = Some (line_counted_qty ex),
                      alr_product = None \<rparr> \<and>
                db' = db\<lparr> lines := map (\<lambda>l. if line_id l = line_id ex
                           then increment_line ex (req_qty req) now u (req_notes req) l else l)
                         (lines db) \<rparr>
            | None \<Rightarrow>
                r = \<lparr> alr_line = new_line u now nid pid req pr, alr_incremented = False,
                      alr_previous_qty = None, alr_product = Some pr \<rparr> \<and>
                db' = db\<lparr> lines := lines db @ [new_line u now nid pid req pr] \<rparr>"
    by blast
  show ?thesis
  proof (cases "existing_line db pid (prod_sku pr)")
    case None
    with c have "line_sku (alr_line r) = prod_sku pr" by (simp add: new_line_def)
    with e None show ?thesis by simp
  next
    case (Some ex')
    from find_Some_mem [OF Some [unfolded existing_line_def]] c Some
    have "line_sku (alr_line r) = prod_sku pr" by simp
    with e Some have "ex' = ex" by simp
    with c Some show ?thesis by simp
  qed
qed

lemma add_line_result_found:
  assumes a: "add_line db u now nid pid req = (Inr r, db')"
  shows "existing_line db' pid (line_sku (alr_line r)) = Some (alr_line r)"
proof -
  from add_line_Inr [OF a] obtain p pr where
    c: "case existing_line db pid (prod_sku pr) of
              Some ex \<Rightarrow>
                r = \<lparr> alr_line = increment_line ex (req_qty req) now u (req_notes req) ex,
                      alr_incremented = True,
                      alr_previous_qty = Some (line_counted_qty ex),
                      alr_product = None \<rparr> \<and>
                db' = db\<lparr> lines := map (\<lambda>l. if line_id l = line_id ex
                           then increment_line ex (req_qty req) now u (req_notes req) l else l)
                         (lines db) \<rparr>
            | None \<Rightarrow>
                r = \<lparr> alr_line = new_line u now nid pid req pr, alr_incremented = False,
                      alr_previous_qty = None, alr_product = Some pr \<rparr> \<and>
                db' = db\<lparr> lines := lines db @ [new_line u now nid pid req pr] \<rparr>"
    by blast
  show ?thesis
  proof (cases "existing_line db pid (prod_sku pr)")
    case None
    have "find P (xs @ [x]) = Some x" if "find P xs = None" "P x" for P and xs :: "count_line list" and x
      using that by (induction xs) (auto split: if_splits)
    from this [OF None [unfolded existing_line_def]] c None show ?thesis
      by (simp add: existing_line_def new_line_def)
  next
    case (Some ex)
    let ?g = "\<lambda>l. if line_id l = line_id ex
                then increment_line ex (req_qty req) now u (req_notes req) l else l"
    from find_Some_mem [OF Some [unfolded existing_line_def]]
    have k: "line_count_pass_id ex = pid" "line_sku ex = prod_sku pr" by simp_all
    have "find (\<lambda>l. line_count_pass_id l = pid \<and> line_sku l = prod_sku pr) (map ?g (lines db)) =
          map_option ?g (find (\<lambda>l. line_count_pass_id l = pid \<and> line_sku l = prod_sku pr) (lines db))"
      by (rule find_map_keys) simp
    with Some c k show ?thesis by (simp add: existing_line_def)
  qed
qed

lemma unique_filter:
  "distinct (map k xs) \<Longrightarrow> find (\<lambda>l. k l = c) xs = Some ex \<Longrightarrow>
     filter (\<lambda>l. k l = c) xs = [ex]"
proof (induction xs)
  case Nil
  then show ?case by simp
next
  case (Cons x xs)
  show ?case
  proof (cases "k x = c")
    case True
    with Cons.prems have "\<forall>y\<in>set xs. k y \<noteq> c" by (auto simp: image_iff)
    then have "filter (\<lambda>l. k l = c) xs = []" by (simp add: filter_empty_conv)
    with True Cons.prems show ?thesis by simp
  next
    case False
    with Cons show ?thesis by simp
  qed
qed

lemma one_line_filter:
  assumes "one_line_per_sku db" "existing_line db pid sku = Some ex"
  shows "filter (\<lambda>l. line_count_pass_id l = pid \<and> line_sku l = sku) (lines db) = [ex]"
  using unique_filter [of "\<lambda>l. (line_count_pass_id l, line_sku l)" "lines db" "(pid, sku)" ex] assms
  by (simp add: one_line_per_sku_def existing_line_def)

lemma add_line_ok:
  assumes "get_pass db pid = Some p" "pass_status p = ''in_progress''"
      and "req_barcode req \<noteq> []"
      and "find_product db (req_barcode req) = Some pr"
      and "\<not> scope_conflict (pass_category p) (prod_category pr)"
      and "\<not> scope_conflict (pass_subcategory p) (prod_subcategory pr)"
  shows "add_line db u now nid pid req =
           (case existing_line db pid (prod_sku pr) of
              Some ex \<Rightarrow>
                (Inr \<lparr> alr_line = increment_line ex (req_qty req) now u (req_notes req) ex,
                       alr_incremented = True,
                       alr_previous_qty = Some (line_counted_qty ex),
                       alr_product = None \<rparr>,
                 db\<lparr> lines := map (\<lambda>l. if line_id l = line_id ex
                           then increment_line ex (req_qty req) now u (req_notes req) l else l)
                         (lines db) \<rparr>)
            | None \<Rightarrow>
                (Inr \<lparr> alr_line = new_line u now nid pid req pr, alr_incremented = False,
                       alr_previous_qty = None, alr_product = Some pr \<rparr>,
                 db\<lparr> lines := lines db @ [new_line u now nid pid req pr] \<rparr>))"
  using assms
  by (simp add: add_line_def Let_def req_qty_def req_notes_def req_barcode_def new_line_def
        increment_line_def split: option.splits)

lemma add_line_accepts:
  assumes "get_pass db pid = Some p" "pass_status p = ''in_progress''"
      and "req_barcode req \<noteq> []"
      and "find_product db (req_barcode req) = Some pr"
      and "\<not> scope_conflict (pass_category p) (prod_category pr)"
      and "\<not> scope_conflict (pass_subcategory p) (prod_subcategory pr)"
  shows "\<exists>r db'. add_line db u now nid pid req = (Inr r, db') \<and>
           alr_line r \<in> set (lines db') \<and> line_count_pass_id (alr_line r) = pid \<and>
           line_sku (alr_line r) = prod_sku pr"
proof (cases "existing_line db pid (prod_sku pr)")
  case None
  with add_line_ok [OF assms, of u now nid] show ?thesis
    by (simp add: new_line_def)
next
  case (Some ex)
  from find_Some_mem [OF Some [unfolded existing_line_def]]
  have "ex \<in> set (lines db)" "line_count_pass_id ex = pid" "line_sku ex = prod_sku pr"
    by simp_all
  with add_line_ok [OF assms, of u now nid] Some show ?thesis
    by (auto simp: image_iff intro!: bexI [of _ ex])
qed

lemma add_line_other_tables:
  assumes "add_line db u now nid pid req = (res, db')"
  shows "passes db' = passes db \<and> products db' = products db"
proof (cases res)
  case (Inl e)
  with assms lines_add_line_error [of db u now nid pid req e db'] show ?thesis by simp
next
  case (Inr r)
  from add_line_Inr [OF assms [unfolded Inr]] show ?thesis
    by (auto split: option.splits)
qed

lemma get_pass_tables: "passes db' = passes db \<Longrightarrow> get_pass db' pid = get_pass db pid"
  by (simp add: get_pass_def)

lemma find_product_tables:
  "products db' = products db \<Longrightarrow> find_product db' code = find_product db code"
  by (simp only: find_product_def)

text \<open>
  C3. Every pass has at most one line per SKU, and every operation, hence every sequence of
  operations, preserves this. On an open pass, a barcode that resolves to a product within
  the pass's scope and whose SKU already has a line in the pass is accepted: \<open>add_line\<close>
  increments that line by the given quantity (1 when absent) without adding a line, and
  reports \<open>incremented\<close> true with \<open>previous_qty\<close> the quantity before. Recording the
  same SKU twice in one open pass succeeds both times and leaves one line, whose quantity
  is the sum of both when the pass had no line of the SKU.
\<close>

theorem one_line_per_sku_preserved:
  "(one_line_per_sku db \<longrightarrow>
      one_line_per_sku (apply_operation opn db) \<and>
      one_line_per_sku (fold apply_operation opns db)) \<and>
   (get_pass db pid = Some p \<and> pass_status p = ''in_progress'' \<and>
    req_barcode req \<noteq> [] \<and> find_product db (req_barcode req) = Some pr \<and>
    \<not> scope_conflict (pass_category p) (prod_category pr) \<and>
    \<not> scope_conflict (pass_subcategory p) (prod_subcategory pr) \<and>
    existing_line db pid (prod_sku pr) = Some ex \<longrightarrow>
      (\<exists>r db'. add_line db u now nid pid req = (Inr r, db') \<and>
         alr_incremented r \<and> alr_previous_qty r = Some (line_counted_qty ex) \<and>
         line_id (alr_line r) = line_id ex \<and>
         line_counted_qty (alr_line r) =
           line_counted_qty ex + (case al_counted_qty req of None \<Rightarrow> 1 | Some q \<Rightarrow> q) \<and>
         length (lines db') = length (lines db) \<and>
         existing_line db' pid (prod_sku pr) = Some (alr_line r))) \<and>
   (one_line_per_sku db \<and>
    get_pass db pid = Some p \<and> pass_status p = ''in_progress'' \<and>
    req_barcode req1 \<noteq> [] \<and> find_product db (req_barcode req1) = Some pr1 \<and>
    req_barcode req2 \<noteq> [] \<and> find_product db (req_barcode req2) = Some pr2 \<and>
    prod_sku pr2 = prod_sku pr1 \<and>
    \<not> scope_conflict (pass_category p) (prod_category pr1) \<and>
    \<not> scope_conflict (pass_subcategory p) (prod_subcategory pr1) \<and>
    \<not> scope_conflict (pass_category p) (prod_category pr2) \<and>
    \<not> scope_conflict (pass_subcategory p) (prod_subcategory pr2) \<longrightarrow>
      (\<exists>r1 db1 r2 db2.
         add_line db u1 t1 n1 pid req1 = (Inr r1, db1) \<and>
         add_line db1 u2 t2 n2 pid req2 = (Inr r2, db2) \<and>
         filter (\<lambda>l. line_count_pass_id l = pid \<and> line_sku l = prod_sku pr1) (lines db2) =
           [alr_line r2] \<and>
         alr_incremented r2 \<and> alr_previous_qty r2 = Some (line_counted_qty (alr_line r1)) \<and>
         line_counted_qty (alr_line r2) =
           line_counted_qty (alr_line r1) +
           (case al_counted_qty req2 of None \<Rightarrow> 1 | Some q \<Rightarrow> q) \<and>
         (existing_line db pid (prod_sku pr1) = None \<longrightarrow>
            \<not> alr_incremented r1 \<and>
            length (lines db2) = length (lines db) + 1 \<and>
            line_counted_qty (alr_line r2) =
              (case al_counted_qty req1 of None \<Rightarrow> 1 | Some q \<Rightarrow> q) +
              (case al_counted_qty req2 of None \<Rightarrow> 1 | Some q \<Rightarrow> q))))"
proof (intro conjI impI)
  show "one_line_per_sku (apply_operation opn db)" if "one_line_per_sku db"
    using that by (rule apply_operation_invariant)
  show "one_line_per_sku (fold apply_operation opns db)" if "one_line_per_sku db"
    using that by (induction opns arbitrary: db) (simp_all add: apply_operation_invariant)
next
  assume h: "get_pass db pid = Some p \<and> pass_status p = ''in_progress'' \<and>
    req_barcode req \<noteq> [] \<and> find_product db (req_barcode req) = Some pr \<and>
    \<not> scope_conflict (pass_category p) (prod_category pr) \<and>
    \<not> scope_conflict (pass_subcategory p) (prod_subcategory pr) \<and>
    existing_line db pid (prod_sku pr) = Some ex"
  then have ex: "existing_line db pid (prod_sku pr) = Some ex"
    and c: "get_pass db pid = Some p" "pass_status p = ''in_progress''"
      "req_barcode req \<noteq> []" "find_product db (req_barcode req) = Some pr"
      "\<not> scope_conflict (pass_category p) (prod_category pr)"
      "\<not> scope_conflict (pass_subcategory p) (prod_subcategory pr)"
    by simp_all
  from add_line_accepts [OF c, of u now nid] obtain r db' where a: "add_line db u now nid pid req = (Inr r, db')"
    and s: "line_sku (alr_line r) = prod_sku pr" by blast
  from ex s have ex': "existing_line db pid (line_sku (alr_line r)) = Some ex" by simp
  note i = add_line_increments [OF a ex']
  note f = add_line_result_found [OF a, unfolded s]
  have "alr_incremented r \<and> alr_previous_qty r = Some (line_counted_qty ex) \<and>
         line_id (alr_line r) = line_id ex \<and>
         line_counted_qty (alr_line r) =
           line_counted_qty ex + (case al_counted_qty req of None \<Rightarrow> 1 | Some q \<Rightarrow> q) \<and>
         length (lines db') = length (lines db)"
    using i by (simp add: req_qty_def)
  with a f show "\<exists>r db'. add_line db u now nid pid req = (Inr r, db') \<and>
         alr_incremented r \<and> alr_previous_qty r = Some (line_counted_qty ex) \<and>
         line_id (alr_line r) = line_id ex \<and>
         line_counted_qty (alr_line r) =
           line_counted_qty ex + (case al_counted_qty req of None \<Rightarrow> 1 | Some q \<Rightarrow> q) \<and>
         length (lines db') = length (lines db) \<and>
         existing_line db' pid (prod_sku pr) = Some (alr_line r)"
    by blast
next
  assume h: "one_line_per_sku db \<and>
    get_pass db pid = Some p \<and> pass_status p = ''in_progress'' \<and>
    req_barcode req1 \<noteq> [] \<and> find_product db (req_barcode req1) = Some pr1 \<and>
    req_barcode req2 \<noteq> [] \<and> find_product db (req_barcode req2) = Some pr2 \<and>
    prod_sku pr2 = prod_sku pr1 \<and>
    \<not> scope_conflict (pass_category p) (prod_category pr1) \<and>
    \<not> scope_conflict (pass_subcategory p) (prod_subcategory pr1) \<and>
    \<not> scope_conflict (pass_category p) (prod_category pr2) \<and>
    \<not> scope_conflict (pass_subcategory p) (prod_subcategory pr2)"
  then have inv: "one_line_per_sku db" and same: "prod_sku pr2 = prod_sku pr1"
    and c1: "get_pass db pid = Some p" "pass_status p = ''in_progress''"
      "req_barcode req1 \<noteq> []" "find_product db (req_barcode req1) = Some pr1"
      "\<not> scope_conflict (pass_category p) (prod_category pr1)"
      "\<not> scope_conflict (pass_subcategory p) (prod_subcategory pr1)"
    and c2: "req_barcode req2 \<noteq> []" "find_product db (req_barcode req2) = Some pr2"
      "\<not> scope_conflict (pass_category p) (prod_category pr2)"
      "\<not> scope_conflict (pass_subcategory p) (prod_subcategory pr2)"
    by simp_all
  from add_line_accepts [OF c1, of u1 t1 n1] obtain r1 db1 where a1: "add_line db u1 t1 n1 pid req1 = (Inr r1, db1)"
    and s1: "line_sku (alr_line r1) = prod_sku pr1" by blast
  note tb = add_line_other_tables [OF a1]
  have g1: "get_pass db1 pid = Some p"
    using get_pass_tables [OF tb [THEN conjunct1], of pid] c1(1) by simp
  have f1: "find_product db1 (req_barcode req2) = Some pr2"
    using find_product_tables [OF tb [THEN conjunct2], of "req_barcode req2"] c2(2) by simp
  from add_line_accepts [OF g1 c1(2) c2(1) f1 c2(3) c2(4), of u2 t2 n2] obtain r2 db2 where a2: "add_line db1 u2 t2 n2 pid req2 = (Inr r2, db2)"
    and s2: "line_sku (alr_line r2) = prod_sku pr2" by blast
  from add_line_invariant [OF inv, of u1 t1 n1 pid req1] a1
  have inv1: "one_line_per_sku db1" by simp
  from add_line_invariant [OF inv1, of u2 t2 n2 pid req2] a2
  have inv2: "one_line_per_sku db2" by simp
  from add_line_result_found [OF a1] s1 s2 same
  have e1: "existing_line db1 pid (line_sku (alr_line r2)) = Some (alr_line r1)" by simp
  note i = add_line_increments [OF a2 e1]
  from add_line_result_found [OF a2] s2 same
  have e2: "existing_line db2 pid (prod_sku pr1) = Some (alr_line r2)" by simp
  note fl = one_line_filter [OF inv2 e2]
  have q2: "line_counted_qty (alr_line r2) =
        line_counted_qty (alr_line r1) +
        (case al_counted_qty req2 of None \<Rightarrow> 1 | Some q \<Rightarrow> q)"
    using i by (simp add: req_qty_def)
  have len2: "length (lines db2) = length (lines db1)" using i by simp
  have fresh: "\<not> alr_incremented r1 \<and>
            length (lines db2) = length (lines db) + 1 \<and>
            line_counted_qty (alr_line r2) =
              (case al_counted_qty req1 of None \<Rightarrow> 1 | Some q \<Rightarrow> q) +
              (case al_counted_qty req2 of None \<Rightarrow> 1 | Some q \<Rightarrow> q)"
    if n: "existing_line db pid (prod_sku pr1) = None"
  proof -
    from add_line_Inr [OF a1] c1 n
    have "r1 = \<lparr> alr_line = new_line u1 t1 n1 pid req1 pr1, alr_incremented = False,
                      alr_previous_qty = None, alr_product = Some pr1 \<rparr> \<and>
          db1 = db\<lparr> lines := lines db @ [new_line u1 t1 n1 pid req1 pr1] \<rparr>"
      by auto
    then show ?thesis using q2 len2 by (simp add: new_line_def req_qty_def)
  qed
  have inc2: "alr_incremented r2" and prev2: "alr_previous_qty r2 = Some (line_counted_qty (alr_line r1))"
    using i by simp_all
  from a1 a2 fl inc2 prev2 q2 fresh
  show "\<exists>r1 db1 r2 db2.
         add_line db u1 t1 n1 pid req1 = (Inr r1, db1) \<and>
         add_line db1 u2 t2 n2 pid req2 = (Inr r2, db2) \<and>
         filter (\<lambda>l. line_count_pass_id l = pid \<and> line_sku l = prod_sku pr1) (lines db2) =
           [alr_line r2] \<and>
         alr_incremented r2 \<and> alr_previous_qty r2 = Some (line_counted_qty (alr_line r1)) \<and>
         line_counted_qty (alr_line r2) =
           line_counted_qty (alr_line r1) +
           (case al_counted_qty req2 of None \<Rightarrow> 1 | Some q \<Rightarrow> q) \<and>
         (existing_line db pid (prod_sku pr1) = None \<longrightarrow>
            \<not> alr_incremented r1 \<and>
            length (lines db2) = length (lines db) + 1 \<and>
            line_counted_qty (alr_line r2) =
              (case al_counted_qty req1 of None \<Rightarrow> 1 | Some q \<Rightarrow> q) +
              (case al_counted_qty req2 of None \<Rightarrow> 1 | Some q \<Rightarrow> q))"
    by (intro exI [of _ r1] exI [of _ db1] exI [of _ r2] exI [of _ db2]) blast
qed

text \<open>
  C10. When \<open>add_line\<close> increments an existing line, the line keeps its identifier, pass,
  product, SKU, barcode, package, unit and confidence; its quantity grows by the request's,
  its capture stamp and user are refreshed, and its notes are replaced only by non-empty
  new notes. Lines with another identifier and all other tables are unchanged.
\<close>

theorem increment_frame:
  assumes a: "add_line db u now nid pid req = (Inr r, db')"
      and i: "alr_incremented r"
  shows "\<exists>ex. existing_line db pid (line_sku (alr_line r)) = Some ex \<and>
           line_id (alr_line r) = line_id ex \<and>
           line_count_pass_id (alr_line r) = line_count_pass_id ex \<and>
           line_product_id (alr_line r) = line_product_id ex \<and>
           line_sku (alr_line r) = line_sku ex \<and>
           line_barcode (alr_line r) = line_barcode ex \<and>
           line_package_id (alr_line r) = line_package_id ex \<and>
           line_unit (alr_line r) = line_unit ex \<and>
           line_confidence (alr_line r) = line_confidence ex \<and>
           line_counted_qty (alr_line r) =
             line_counted_qty ex + (case al_counted_qty req of None \<Rightarrow> 1 | Some q \<Rightarrow> q) \<and>
           line_captured_at (alr_line r) = now \<and>
           line_captured_by_user_id (alr_line r) = u \<and>
           line_notes (alr_line r) =
             (if py_strip (get_str (al_notes req) []) = [] then line_notes ex
              else Some (py_strip (get_str (al_notes req) []))) \<and>
           length (lines db') = length (lines db) \<and>
           (\<forall>i<length (lines db).
              (line_id (lines db ! i) \<noteq> line_id ex \<longrightarrow> lines db' ! i = lines db ! i) \<and>
              line_id (lines db' ! i) = line_id (lines db ! i) \<and>
              line_count_pass_id (lines db' ! i) = line_count_pass_id (lines db ! i) \<and>
              line_product_id (lines db' ! i) = line_product_id (lines db ! i) \<and>
              line_sku (lines db' ! i) = line_sku (lines db ! i) \<and>
              line_barcode (lines db' ! i) = line_barcode (lines db ! i) \<and>
              line_package_id (lines db' ! i) = line_package_id (lines db ! i) \<and>
              line_unit (lines db' ! i) = line_unit (lines db ! i) \<and>
              line_confidence (lines db' ! i) = line_confidence (lines db ! i)) \<and>
           db'\<lparr> lines := lines db \<rparr> = db"
proof -
  from add_line_Inr [OF a] obtain p pr where
    c: "case existing_line db pid (prod_sku pr) of
              Some ex \<Rightarrow>
                r = \<lparr> alr_line = increment_line ex (req_qty req) now u (req_notes req) ex,
                      alr_incremented = True,
                      alr_previous_qty = Some (line_counted_qty ex),
                      alr_product = None \<rparr> \<and>
                db' = db\<lparr> lines := map (\<lambda>l. if line_id l = line_id ex
                           then increment_line ex (req_qty req) now u (req_notes req) l else l)
                         (lines db) \<rparr>
            | None \<Rightarrow>
                r = \<lparr> alr_line = new_line u now nid pid req pr, alr_incremented = False,
                      alr_previous_qty = None, alr_product = Some pr \<rparr> \<and>
                db' = db\<lparr> lines := lines db @ [new_line u now nid pid req pr] \<rparr>"
    by blast
  from c i obtain ex where ex: "existing_line db pid (prod_sku pr) = Some ex"
    by (cases "existing_line db pid (prod_sku pr)") auto
  from find_Some_mem [OF ex [unfolded existing_line_def]]
  have k: "line_sku ex = prod_sku pr" by simp
  from c ex have r: "alr_line r = increment_line ex (req_qty req) now u (req_notes req) ex"
    and d: "db' = db\<lparr> lines := map (\<lambda>l. if line_id l = line_id ex
                           then increment_line ex (req_qty req) now u (req_notes req) l else l)
                         (lines db) \<rparr>"
    by simp_all
  have n: "(if truthy (req_notes req) then req_notes req else line_notes ex) =
             (if py_strip (get_str (al_notes req) []) = [] then line_notes ex
              else Some (py_strip (get_str (al_notes req) [])))"
    by (simp add: req_notes_def or_none_def truthy_def)
  have "existing_line db pid (line_sku (alr_line r)) = Some ex"
    using ex k r by simp
  then show ?thesis
    unfolding r d by (intro exI [of _ ex]) (simp add: n req_qty_def)
qed

text \<open>
  C7, amended. For \<open>add_line\<close> on an open pass with a resolved product: a category scope
  and a product category that are both present and differ case-insensitively give a
  \<open>ScopeMismatch\<close> with the expected and actual values and leave the database unchanged;
  so do a subcategory scope and product subcategory (the values reported are the
  subcategory's when the category check passes). A product with no category is never
  rejected for its category, and is accepted when its subcategory does not conflict with
  the pass's subcategory scope. A product is accepted, and its line recorded, whenever for
  the category and for the subcategory the scope is absent, or the product's value is
  absent, or the two agree case-insensitively.
\<close>

theorem scope_enforcement:
  assumes p: "get_pass db pid = Some p" "pass_status p = ''in_progress''"
      and b: "py_strip (get_str (al_barcode req) []) \<noteq> []"
      and pr: "find_product db (py_strip (get_str (al_barcode req) [])) = Some pr"
  shows "(pass_category p = Some sc \<and> sc \<noteq> [] \<and> prod_category pr = Some pc \<and> pc \<noteq> [] \<and>
          py_lower pc \<noteq> py_lower sc \<longrightarrow>
            add_line db u now nid pid req =
              (Inl (ScopeMismatch ''category'' sc pc (prod_name pr)), db)) \<and>
         (pass_subcategory p = Some ss \<and> ss \<noteq> [] \<and> prod_subcategory pr = Some ps \<and> ps \<noteq> [] \<and>
          py_lower ps \<noteq> py_lower ss \<longrightarrow>
            (\<exists>f e a. add_line db u now nid pid req =
               (Inl (ScopeMismatch f e a (prod_name pr)), db)) \<and>
            (\<not> scope_conflict (pass_category p) (prod_category pr) \<longrightarrow>
               add_line db u now nid pid req =
                 (Inl (ScopeMismatch ''subcategory'' ss ps (prod_name pr)), db))) \<and>
         (prod_category pr = None \<or> prod_category pr = Some [] \<longrightarrow>
            (\<forall>e a n. fst (add_line db u now nid pid req) \<noteq> Inl (ScopeMismatch ''category'' e a n)) \<and>
            (\<not> scope_conflict (pass_subcategory p) (prod_subcategory pr) \<longrightarrow>
               (\<exists>r db'. add_line db u now nid pid req = (Inr r, db')))) \<and>
         ((pass_category p = None \<or> prod_category pr = None \<or>
           py_lower (the (prod_category pr)) = py_lower (the (pass_category p))) \<and>
          (pass_subcategory p = None \<or> prod_subcategory pr = None \<or>
           py_lower (the (prod_subcategory pr)) = py_lower (the (pass_subcategory p))) \<longrightarrow>
            (\<exists>r db'. add_line db u now nid pid req = (Inr r, db') \<and>
               alr_line r \<in> set (lines db') \<and> line_count_pass_id (alr_line r) = pid \<and>
               line_sku (alr_line r) = prod_sku pr))"
proof -
  have first: "(pass_category p = Some sc \<and> sc \<noteq> [] \<and> prod_category pr = Some pc \<and> pc \<noteq> [] \<and>
          py_lower pc \<noteq> py_lower sc \<longrightarrow>
            add_line db u now nid pid req =
              (Inl (ScopeMismatch ''category'' sc pc (prod_name pr)), db)) \<and>
         (pass_subcategory p = Some ss \<and> ss \<noteq> [] \<and> prod_subcategory pr = Some ps \<and> ps \<noteq> [] \<and>
          py_lower ps \<noteq> py_lower ss \<longrightarrow>
            (\<exists>f e a. add_line db u now nid pid req =
               (Inl (ScopeMismatch f e a (prod_name pr)), db)) \<and>
            (\<not> scope_conflict (pass_category p) (prod_category pr) \<longrightarrow>
               add_line db u now nid pid req =
                 (Inl (ScopeMismatch ''subcategory'' ss ps (prod_name pr)), db))) \<and>
         (prod_category pr = None \<or> prod_category pr = Some [] \<longrightarrow>
            (\<forall>e a n. fst (add_line db u now nid pid req) \<noteq> Inl (ScopeMismatch ''category'' e a n)) \<and>
            (\<not> scope_conflict (pass_subcategory p) (prod_subcategory pr) \<longrightarrow>
               (\<exists>r db'. add_line db u now nid pid req = (Inr r, db'))))"
    using p b pr
    by (auto simp: add_line_def Let_def scope_conflict_def truthy_def split: option.splits)
  have last: "(\<exists>r db'. add_line db u now nid pid req = (Inr r, db') \<and>
               alr_line r \<in> set (lines db') \<and> line_count_pass_id (alr_line r) = pid \<and>
               line_sku (alr_line r) = prod_sku pr)"
    if h: "(pass_category p = None \<or> prod_category pr = None \<or>
           py_lower (the (prod_category pr)) = py_lower (the (pass_category p))) \<and>
          (pass_subcategory p = None \<or> prod_subcategory pr = None \<or>
           py_lower (the (prod_subcategory pr)) = py_lower (the (pass_subcategory p)))"
  proof -
    from h have c: "\<not> scope_conflict (pass_category p) (prod_category pr)"
      and s: "\<not> scope_conflict (pass_subcategory p) (prod_subcategory pr)"
      by (auto simp: scope_conflict_def truthy_def)
    from b pr have b': "req_barcode req \<noteq> []" and pr': "find_product db (req_barcode req) = Some pr"
      by (simp_all add: req_barcode_def)
    from add_line_accepts [OF p b' pr' c s] show ?thesis .
  qed
  from first last show ?thesis by blast
qed

text \<open>
  C8. \<open>add_line\<close>, \<open>update_line\<close> and \<open>delete_line\<close> fail with \<open>InvalidState\<close> and leave
  the database unchanged when the owning pass is not \<open>in_progress\<close>. Submitting a session
  fails, leaving the database unchanged, while one of its passes is \<open>in_progress\<close>; an
  \<open>in_progress\<close> session none of whose passes is \<open>in_progress\<close> (they are submitted or
  voided) is submitted.
\<close>

theorem lifecycle_guard:
  "(get_pass db pid = Some p \<and> pass_status p \<noteq> ''in_progress'' \<longrightarrow>
      add_line db u now nid pid req = (Inl (InvalidState (pass_status p)), db)) \<and>
   (get_line db lid = Some l \<and> get_pass db (line_count_pass_id l) = Some q \<and>
    pass_status q \<noteq> ''in_progress'' \<longrightarrow>
      update_line db u now lid ureq = (Inl (InvalidState (pass_status q)), db) \<and>
      delete_line db lid = (Inl (InvalidState (pass_status q)), db)) \<and>
   ((\<exists>x\<in>set (passes db). pass_session_id x = sid \<and> pass_status x = ''in_progress'') \<longrightarrow>
      (\<exists>e. submit_session db sid = (Inl e, db)) \<and>
      (get_session db sid = Some s \<longrightarrow> (\<exists>m. submit_session db sid = (Inl (InvalidState m), db)))) \<and>
   (get_session db sid = Some s \<and> sess_status s = ''in_progress'' \<and>
    (\<forall>x\<in>set (passes db). pass_session_id x = sid \<longrightarrow> pass_status x \<noteq> ''in_progress'') \<longrightarrow>
      submit_session db sid =
        (Inr (s\<lparr> sess_status := ''submitted'' \<rparr>), set_session_status sid ''submitted'' db))"
proof -
  have op: "(open_passes db sid > 0) =
            (\<exists>x\<in>set (passes db). pass_session_id x = sid \<and> pass_status x = ''in_progress'')"
    by (simp add: open_passes_def filter_empty_conv)
  show ?thesis
    unfolding add_line_def update_line_def delete_line_def submit_session_def op
    by (auto split: option.splits)
qed

lemma shop_first_scan:
  "add_line shop 7 (0, 50) ''l9'' ''p3'' (scan ''C'' None) =
     (Inr \<lparr> alr_line = first_scan, alr_incremented = False, alr_previous_qty = None,
            alr_product = Some (mk_product 3 ''C'' None ''Gamma'' None None) \<rparr>,
      shop\<lparr> lines := lines shop @ [first_scan] \<rparr>)"
  by code_simp

lemma shop_second_scan:
  "add_line (shop\<lparr> lines := lines shop @ [first_scan] \<rparr>) 7 (0, 51) ''l10'' ''p3''
       (scan ''C'' (Some 4)) =
     (Inr \<lparr> alr_line = second_scan, alr_incremented = True, alr_previous_qty = Some 1,
            alr_product = None \<rparr>,
      shop\<lparr> lines := lines shop @ [second_scan] \<rparr>)"
  by code_simp

lemma shop_alternate_scan:
  "add_line shop 7 (0, 50) ''l9'' ''p3'' alternate_scan =
     (Inr \<lparr> alr_line = merged_line, alr_incremented = True, alr_previous_qty = Some 100,
            alr_product = None \<rparr>,
      shop\<lparr> lines := (lines shop)[2 := merged_line] \<rparr>)"
  by code_simp

theorem one_line_per_sku_preserved_witness:
  "one_line_per_sku shop \<and>
   one_line_per_sku (apply_operation (AddLine 7 (0, 50) ''l9'' ''p3'' (scan ''C'' None)) shop) \<and>
   get_pass shop ''p3'' = Some open_pass \<and> pass_status open_pass = ''in_progress'' \<and>
   find_product shop (req_barcode (scan ''C'' None)) =
     Some (mk_product 3 ''C'' None ''Gamma'' None None) \<and>
   existing_line shop ''p3'' ''C'' = None \<and>
   first_scan = (mk_line ''l9'' ''p3'' 3 ''C'' 1)\<lparr> line_captured_at := (0, 50) \<rparr> \<and>
   second_scan = (mk_line ''l9'' ''p3'' 3 ''C'' 5)\<lparr> line_captured_at := (0, 51) \<rparr> \<and>
   add_line shop 7 (0, 50) ''l9'' ''p3'' (scan ''C'' None) =
     (Inr \<lparr> alr_line = first_scan, alr_incremented = False, alr_previous_qty = None,
            alr_product = Some (mk_product 3 ''C'' None ''Gamma'' None None) \<rparr>,
      shop\<lparr> lines := lines shop @ [first_scan] \<rparr>) \<and>
   add_line (shop\<lparr> lines := lines shop @ [first_scan] \<rparr>) 7 (0, 51) ''l10'' ''p3''
       (scan ''C'' (Some 4)) =
     (Inr \<lparr> alr_line = second_scan, alr_incremented = True, alr_previous_qty = Some 1,
            alr_product = None \<rparr>,
      shop\<lparr> lines := lines shop @ [second_scan] \<rparr>) \<and>
   filter (\<lambda>l. line_count_pass_id l = ''p3'' \<and> line_sku l = ''C'')
     (lines (shop\<lparr> lines := lines shop @ [second_scan] \<rparr>)) = [second_scan] \<and>
   line_counted_qty second_scan = 1 + 4 \<and>
   length (lines (shop\<lparr> lines := lines shop @ [second_scan] \<rparr>)) = length (lines shop) + 1 \<and>
   existing_line shop ''p3'' ''A'' = Some (mk_line ''l3'' ''p3'' 1 ''A'' 100) \<and>
   (\<exists>r db'. add_line shop 7 (0, 50) ''l9'' ''p3'' (scan ''A'' (Some 2)) = (Inr r, db') \<and>
      alr_incremented r \<and> alr_previous_qty r = Some 100 \<and> line_id (alr_line r) = ''l3'' \<and>
      line_counted_qty (alr_line r) = 100 + 2 \<and>
      length (lines db') = length (lines shop))"
proof -
  let ?c = "mk_product 3 ''C'' None ''Gamma'' None None"
  let ?a = "mk_product 1 ''A'' (Some ''X'') ''Alpha'' (Some ''Flower'') (Some ''Dried Flower'')"
  let ?l3 = "mk_line ''l3'' ''p3'' 1 ''A'' 100"
  let ?r1 = "\<lparr> alr_line = first_scan, alr_incremented = False, alr_previous_qty = None,
            alr_product = Some ?c \<rparr>"
  let ?r2 = "\<lparr> alr_line = second_scan, alr_incremented = True, alr_previous_qty = Some 1,
            alr_product = None \<rparr>"
  let ?db1 = "shop\<lparr> lines := lines shop @ [first_scan] \<rparr>"
  let ?db2 = "shop\<lparr> lines := lines shop @ [second_scan] \<rparr>"
  have inv: "one_line_per_sku shop" by code_simp
  have p: "get_pass shop ''p3'' = Some open_pass" by code_simp
  have st: "pass_status open_pass = ''in_progress''" by (simp add: open_pass_def mk_pass_def)
  have b1: "req_barcode (scan ''C'' None) \<noteq> []" by code_simp
  have b2: "req_barcode (scan ''C'' (Some 4)) \<noteq> []" by code_simp
  have f1: "find_product shop (req_barcode (scan ''C'' None)) = Some ?c" by code_simp
  have f2: "find_product shop (req_barcode (scan ''C'' (Some 4))) = Some ?c" by code_simp
  have nc: "\<not> scope_conflict (pass_category open_pass) (prod_category ?c)"
           "\<not> scope_conflict (pass_subcategory open_pass) (prod_subcategory ?c)"
    by code_simp+
  have sku: "prod_sku ?c = ''C''" by (simp add: mk_product_def)
  have none: "existing_line shop ''p3'' ''C'' = None" by code_simp
  note t = one_line_per_sku_preserved
    [where db = shop and opn = "AddLine 7 (0, 50) ''l9'' ''p3'' (scan ''C'' None)"
       and pid = "''p3''" and p = open_pass
       and req = "scan ''A'' (Some 2)" and pr = ?a and ex = ?l3
       and u = 7 and now = "(0, 50)" and nid = "''l9''"
       and ?u1.0 = 7 and ?t1.0 = "(0, 50)" and ?n1.0 = "''l9''"
       and ?req1.0 = "scan ''C'' None" and ?pr1.0 = ?c
       and ?u2.0 = 7 and ?t2.0 = "(0, 51)" and ?n2.0 = "''l10''"
       and ?req2.0 = "scan ''C'' (Some 4)" and ?pr2.0 = ?c]
  have a: "one_line_per_sku
      (apply_operation (AddLine 7 (0, 50) ''l9'' ''p3'' (scan ''C'' None)) shop)"
    by (rule mp [OF t [THEN conjunct1] inv, THEN conjunct1])
  have pre: "one_line_per_sku shop \<and>
    get_pass shop ''p3'' = Some open_pass \<and> pass_status open_pass = ''in_progress'' \<and>
    req_barcode (scan ''C'' None) \<noteq> [] \<and>
    find_product shop (req_barcode (scan ''C'' None)) = Some ?c \<and>
    req_barcode (scan ''C'' (Some 4)) \<noteq> [] \<and>
    find_product shop (req_barcode (scan ''C'' (Some 4))) = Some ?c \<and>
    prod_sku ?c = prod_sku ?c \<and>
    \<not> scope_conflict (pass_category open_pass) (prod_category ?c) \<and>
    \<not> scope_conflict (pass_subcategory open_pass) (prod_subcategory ?c) \<and>
    \<not> scope_conflict (pass_category open_pass) (prod_category ?c) \<and>
    \<not> scope_conflict (pass_subcategory open_pass) (prod_subcategory ?c)"
    by (intro conjI inv p st b1 b2 f1 f2 nc refl)
  from mp [OF t [THEN conjunct2, THEN conjunct2] pre] obtain r1 db1 r2 db2 where
    all: "add_line shop 7 (0, 50) ''l9'' ''p3'' (scan ''C'' None) = (Inr r1, db1) \<and>
         add_line db1 7 (0, 51) ''l10'' ''p3'' (scan ''C'' (Some 4)) = (Inr r2, db2) \<and>
         filter (\<lambda>l. line_count_pass_id l = ''p3'' \<and> line_sku l = prod_sku ?c) (lines db2) =
           [alr_line r2] \<and>
         alr_incremented r2 \<and> alr_previous_qty r2 = Some (line_counted_qty (alr_line r1)) \<and>
         line_counted_qty (alr_line r2) =
           line_counted_qty (alr_line r1) +
           (case al_counted_qty (scan ''C'' (Some 4)) of None \<Rightarrow> 1 | Some q \<Rightarrow> q) \<and>
         (existing_line shop ''p3'' (prod_sku ?c) = None \<longrightarrow>
            \<not> alr_incremented r1 \<and>
            length (lines db2) = length (lines shop) + 1 \<and>
            line_counted_qty (alr_line r2) =
              (case al_counted_qty (scan ''C'' None) of None \<Rightarrow> 1 | Some q \<Rightarrow> q) +
              (case al_counted_qty (scan ''C'' (Some 4)) of None \<Rightarrow> 1 | Some q \<Rightarrow> q))"
    by (elim exE) (rule that)
  note a1 = all [THEN conjunct1]
  note a2 = all [THEN conjunct2, THEN conjunct1]
  note fl = all [THEN conjunct2, THEN conjunct2, THEN conjunct1]
  note fr = all [THEN conjunct2, THEN conjunct2, THEN conjunct2, THEN conjunct2, THEN conjunct2,
                 THEN conjunct2]
  from a1 shop_first_scan have r1: "r1 = ?r1" and d1: "db1 = ?db1" by simp_all
  from a2 [unfolded d1] shop_second_scan have r2: "r2 = ?r2" and d2: "db2 = ?db2" by simp_all
  have flt: "filter (\<lambda>l. line_count_pass_id l = ''p3'' \<and> line_sku l = ''C'') (lines ?db2) =
               [second_scan]"
    using fl unfolding r2 d2 sku by simp
  have none': "existing_line shop ''p3'' (prod_sku ?c) = None"
    unfolding sku by (rule none)
  from mp [OF fr none'] have "length (lines db2) = length (lines shop) + 1 \<and>
            line_counted_qty (alr_line r2) =
              (case al_counted_qty (scan ''C'' None) of None \<Rightarrow> 1 | Some q \<Rightarrow> q) +
              (case al_counted_qty (scan ''C'' (Some 4)) of None \<Rightarrow> 1 | Some q \<Rightarrow> q)"
    by (elim conjE) (intro conjI)
  then have len: "length (lines ?db2) = length (lines shop) + 1"
    and qty: "line_counted_qty second_scan = 1 + 4"
    unfolding r2 d2 by (simp_all add: scan_def)
  have ba: "req_barcode (scan ''A'' (Some 2)) \<noteq> []" by code_simp
  have fa: "find_product shop (req_barcode (scan ''A'' (Some 2))) = Some ?a" by code_simp
  have nca: "\<not> scope_conflict (pass_category open_pass) (prod_category ?a)"
            "\<not> scope_conflict (pass_subcategory open_pass) (prod_subcategory ?a)"
    by code_simp+
  have ska: "prod_sku ?a = ''A''" by (simp add: mk_product_def)
  have exa: "existing_line shop ''p3'' ''A'' = Some ?l3" by code_simp
  have prea: "get_pass shop ''p3'' = Some open_pass \<and> pass_status open_pass = ''in_progress'' \<and>
    req_barcode (scan ''A'' (Some 2)) \<noteq> [] \<and>
    find_product shop (req_barcode (scan ''A'' (Some 2))) = Some ?a \<and>
    \<not> scope_conflict (pass_category open_pass) (prod_category ?a) \<and>
    \<not> scope_conflict (pass_subcategory open_pass) (prod_subcategory ?a) \<and>
    existing_line shop ''p3'' (prod_sku ?a) = Some ?l3"
    unfolding ska by (intro conjI p st ba fa nca exa)
  have l3: "line_counted_qty ?l3 = 100" "line_id ?l3 = ''l3''" by (simp_all add: mk_line_def)
  have q: "(case al_counted_qty (scan ''A'' (Some 2)) of None \<Rightarrow> 1 | Some q \<Rightarrow> q) = 2"
    by (simp add: scan_def)
  from mp [OF t [THEN conjunct2, THEN conjunct1] prea]
  have inc: "\<exists>r db'. add_line shop 7 (0, 50) ''l9'' ''p3'' (scan ''A'' (Some 2)) = (Inr r, db') \<and>
      alr_incremented r \<and> alr_previous_qty r = Some 100 \<and> line_id (alr_line r) = ''l3'' \<and>
      line_counted_qty (alr_line r) = 100 + 2 \<and>
      length (lines db') = length (lines shop)"
    unfolding l3 q by blast
  show ?thesis
    by (intro conjI)
       (rule inv a p st f1 none first_scan_def second_scan_def shop_first_scan shop_second_scan
          flt qty len exa inc)+
qed

text \<open>
  In the example, the alternate identifier \<open>X\<close> of product \<open>A\<close> is scanned into a pass that
  holds a line created under \<open>A\<close>: the line is incremented and keeps its first barcode.
\<close>

theorem increment_frame_witness:
  "add_line shop 7 (0, 50) ''l9'' ''p3'' alternate_scan =
     (Inr \<lparr> alr_line = merged_line, alr_incremented = True, alr_previous_qty = Some 100,
            alr_product = None \<rparr>,
      shop\<lparr> lines := (lines shop)[2 := merged_line] \<rparr>) \<and>
   find_product shop ''X'' = Some (mk_product 1 ''A'' (Some ''X'') ''Alpha'' (Some ''Flower'')
     (Some ''Dried Flower'')) \<and>
   existing_line shop ''p3'' ''A'' = Some (mk_line ''l3'' ''p3'' 1 ''A'' 100) \<and>
   line_barcode merged_line = Some ''A'' \<and>
   line_package_id merged_line = None \<and>
   line_unit merged_line = ''each'' \<and>
   line_confidence merged_line = ''scanned'' \<and>
   line_notes merged_line = None \<and>
   line_counted_qty merged_line = 102"
proof -
  let ?r = "\<lparr> alr_line = merged_line, alr_incremented = True, alr_previous_qty = Some 100,
            alr_product = None \<rparr>"
  have inc: "alr_incremented ?r" by simp
  have pr: "find_product shop ''X'' = Some (mk_product 1 ''A'' (Some ''X'') ''Alpha''
     (Some ''Flower'') (Some ''Dried Flower''))" by code_simp
  have sku: "line_sku (alr_line ?r) = ''A''" by (simp add: merged_line_def mk_line_def)
  have ex: "existing_line shop ''p3'' ''A'' = Some (mk_line ''l3'' ''p3'' 1 ''A'' 100)"
    by code_simp
  have old: "line_barcode (mk_line ''l3'' ''p3'' 1 ''A'' 100) = Some ''A''"
    "line_package_id (mk_line ''l3'' ''p3'' 1 ''A'' 100) = None"
    "line_unit (mk_line ''l3'' ''p3'' 1 ''A'' 100) = ''each''"
    "line_confidence (mk_line ''l3'' ''p3'' 1 ''A'' 100) = ''scanned''"
    "line_notes (mk_line ''l3'' ''p3'' 1 ''A'' 100) = None"
    "line_counted_qty (mk_line ''l3'' ''p3'' 1 ''A'' 100) = 100"
    by (simp_all add: mk_line_def)
  have blank: "py_strip (get_str (al_notes alternate_scan) []) = []" by code_simp
  have q: "(case al_counted_qty alternate_scan of None \<Rightarrow> 1 | Some q \<Rightarrow> q) = 2"
    by (simp add: alternate_scan_def)
  from increment_frame [OF shop_alternate_scan inc]
  have "line_barcode merged_line = Some ''A'' \<and>
        line_package_id merged_line = None \<and>
        line_unit merged_line = ''each'' \<and>
        line_confidence merged_line = ''scanned'' \<and>
        line_notes merged_line = None \<and>
        line_counted_qty merged_line = 102"
    unfolding sku ex blank q by (auto simp: old)
  with shop_alternate_scan pr ex show ?thesis by blast
qed

theorem scope_enforcement_witness:
  "get_pass shop ''p3'' = Some open_pass \<and>
   pass_status open_pass = ''in_progress'' \<and>
   py_strip (get_str (al_barcode (scan ''B'' None)) []) = ''B'' \<and>
   find_product shop ''B'' = Some (mk_product 2 ''B'' None ''Beta'' (Some ''Edibles'') (Some ''Gummies'')) \<and>
   py_lower ''Edibles'' \<noteq> py_lower ''Flower'' \<and>
   add_line shop 7 (0, 50) ''l9'' ''p3'' (scan ''B'' None) =
     (Inl (ScopeMismatch ''category'' ''Flower'' ''Edibles'' ''Beta''), shop) \<and>
   find_product shop ''E'' = Some (mk_product 5 ''E'' None ''Epsilon'' (Some ''FLOWER'') None) \<and>
   py_lower ''FLOWER'' = py_lower ''Flower'' \<and>
   py_lower [char_of (201 :: nat)] = [char_of (233 :: nat)] \<and>
   (\<exists>r db'. add_line shop 7 (0, 50) ''l9'' ''p3'' (scan ''E'' None) = (Inr r, db') \<and>
      alr_line r \<in> set (lines db') \<and> line_count_pass_id (alr_line r) = ''p3'' \<and>
      line_sku (alr_line r) = ''E'') \<and>
   add_line shop 7 (0, 50) ''l9'' ''p3'' (scan ''E'' None) =
     (Inr \<lparr> alr_line = (mk_line ''l9'' ''p3'' 5 ''E'' 1)\<lparr> line_captured_at := (0, 50) \<rparr>,
            alr_incremented = False, alr_previous_qty = None,
            alr_product = Some (mk_product 5 ''E'' None ''Epsilon'' (Some ''FLOWER'') None) \<rparr>,
      shop\<lparr> lines := lines shop @
        [(mk_line ''l9'' ''p3'' 5 ''E'' 1)\<lparr> line_captured_at := (0, 50) \<rparr>] \<rparr>)"
proof -
  let ?pr = "mk_product 2 ''B'' None ''Beta'' (Some ''Edibles'') (Some ''Gummies'')"
  let ?e = "mk_product 5 ''E'' None ''Epsilon'' (Some ''FLOWER'') None"
  have p: "get_pass shop ''p3'' = Some open_pass" by code_simp
  have st: "pass_status open_pass = ''in_progress''" by (simp add: open_pass_def mk_pass_def)
  have b: "py_strip (get_str (al_barcode (scan ''B'' None)) []) = ''B''" by code_simp
  then have bn: "py_strip (get_str (al_barcode (scan ''B'' None)) []) \<noteq> []" by simp
  have pr: "find_product shop ''B'' = Some ?pr" by code_simp
  have pr': "find_product shop (py_strip (get_str (al_barcode (scan ''B'' None)) [])) = Some ?pr"
    unfolding b by (rule pr)
  have lo: "py_lower ''Edibles'' \<noteq> py_lower ''Flower''" by code_simp
  have pre: "pass_category open_pass = Some ''Flower'' \<and> ''Flower'' \<noteq> [] \<and>
             prod_category ?pr = Some ''Edibles'' \<and> ''Edibles'' \<noteq> [] \<and>
             py_lower ''Edibles'' \<noteq> py_lower ''Flower''"
    using lo by (simp add: open_pass_def mk_pass_def mk_product_def)
  have nm: "prod_name ?pr = ''Beta''" by (simp add: mk_product_def)
  from mp [OF scope_enforcement [OF p st bn pr', THEN conjunct1] pre]
  have rej: "add_line shop 7 (0, 50) ''l9'' ''p3'' (scan ''B'' None) =
     (Inl (ScopeMismatch ''category'' ''Flower'' ''Edibles'' ''Beta''), shop)"
    unfolding nm .
  have be: "py_strip (get_str (al_barcode (scan ''E'' None)) []) = ''E''" by code_simp
  then have ben: "py_strip (get_str (al_barcode (scan ''E'' None)) []) \<noteq> []" by simp
  have e: "find_product shop ''E'' = Some ?e" by code_simp
  have e': "find_product shop (py_strip (get_str (al_barcode (scan ''E'' None)) [])) = Some ?e"
    unfolding be by (rule e)
  have eq: "py_lower ''FLOWER'' = py_lower ''Flower''" by code_simp
  have fold: "py_lower [char_of (201 :: nat)] = [char_of (233 :: nat)]" by code_simp
  have pre_e: "(pass_category open_pass = None \<or> prod_category ?e = None \<or>
           py_lower (the (prod_category ?e)) = py_lower (the (pass_category open_pass))) \<and>
          (pass_subcategory open_pass = None \<or> prod_subcategory ?e = None \<or>
           py_lower (the (prod_subcategory ?e)) = py_lower (the (pass_subcategory open_pass)))"
    using eq by (simp add: open_pass_def mk_pass_def mk_product_def)
  have sku: "prod_sku ?e = ''E''" by (simp add: mk_product_def)
  from mp [OF scope_enforcement [OF p st ben e', THEN conjunct2, THEN conjunct2,
                THEN conjunct2] pre_e]
  have acc: "\<exists>r db'. add_line shop 7 (0, 50) ''l9'' ''p3'' (scan ''E'' None) = (Inr r, db') \<and>
      alr_line r \<in> set (lines db') \<and> line_count_pass_id (alr_line r) = ''p3'' \<and>
      line_sku (alr_line r) = ''E''"
    unfolding sku .
  have val: "add_line shop 7 (0, 50) ''l9'' ''p3'' (scan ''E'' None) =
     (Inr \<lparr> alr_line = (mk_line ''l9'' ''p3'' 5 ''E'' 1)\<lparr> line_captured_at := (0, 50) \<rparr>,
            alr_incremented = False, alr_previous_qty = None,
            alr_product = Some (mk_product 5 ''E'' None ''Epsilon'' (Some ''FLOWER'') None) \<rparr>,
      shop\<lparr> lines := lines shop @
        [(mk_line ''l9'' ''p3'' 5 ''E'' 1)\<lparr> line_captured_at := (0, 50) \<rparr>] \<rparr>)"
    by code_simp
  show ?thesis by (intro conjI) (rule p st b pr lo rej e eq fold acc val)+
qed

text \<open>
  C7, as stated: a product with no category is accepted whatever the pass's scope. In the
  example, product \<open>D\<close> has no category and subcategory \<open>Gummies\<close>; the pass is scoped to
  subcategory \<open>Dried Flower\<close>, and the line is rejected.
\<close>

theorem uncategorised_product_rejected:
  "get_pass shop ''p3'' = Some open_pass \<and>
   pass_status open_pass = ''in_progress'' \<and>
   find_product shop ''D'' = Some (mk_product 4 ''D'' None ''Delta'' None (Some ''Gummies'')) \<and>
   prod_category (mk_product 4 ''D'' None ''Delta'' None (Some ''Gummies'')) = None \<and>
   add_line shop 7 (0, 50) ''l9'' ''p3'' (scan ''D'' None) =
     (Inl (ScopeMismatch ''subcategory'' ''Dried Flower'' ''Gummies'' ''Delta''), shop)"
proof -
  have "get_pass shop ''p3'' = Some open_pass" by code_simp
  moreover have "pass_status open_pass = ''in_progress''"
    by (simp add: open_pass_def mk_pass_def)
  moreover have "find_product shop ''D'' =
      Some (mk_product 4 ''D'' None ''Delta'' None (Some ''Gummies''))" by code_simp
  moreover have "prod_category (mk_product 4 ''D'' None ''Delta'' None (Some ''Gummies'')) = None"
    by (simp add: mk_product_def)
  moreover have "add_line shop 7 (0, 50) ''l9'' ''p3'' (scan ''D'' None) =
     (Inl (ScopeMismatch ''subcategory'' ''Dried Flower'' ''Gummies'' ''Delta''), shop)"
    by code_simp
  ultimately show ?thesis by blast
qed


theorem lifecycle_guard_witness:
  "add_line shop 7 (0, 50) ''l9'' ''p1'' (scan ''A'' None) =
     (Inl (InvalidState ''submitted''), shop) \<and>
   update_line shop 7 (0, 50) ''l4'' \<lparr> ul_counted_qty = Some 1, ul_notes = None \<rparr> =
     (Inl (InvalidState ''voided''), shop) \<and>
   delete_line shop ''l4'' = (Inl (InvalidState ''voided''), shop) \<and>
   open_pass \<in> set (passes shop) \<and>
   (\<exists>m. submit_session shop ''s1'' = (Inl (InvalidState m), shop)) \<and>
   list_all (\<lambda>x. pass_status x = ''submitted'' \<or> pass_status x = ''voided'') (passes counted_shop) \<and>
   submit_session counted_shop ''s1'' =
     (Inr ((hd (sessions shop))\<lparr> sess_status := ''submitted'' \<rparr>),
      set_session_status ''s1'' ''submitted'' counted_shop)"
proof -
  let ?p1 = "mk_pass ''p1'' ''s1'' ''submitted'' None None (0, 0) (Some (0, 10))"
  let ?p4 = "mk_pass ''p4'' ''s1'' ''voided'' None None (0, 2) (Some (0, 3))"
  let ?l4 = "mk_line ''l4'' ''p4'' 2 ''B'' 50"
  let ?s = "hd (sessions shop)"
  have p1: "get_pass shop ''p1'' = Some ?p1 \<and> pass_status ?p1 \<noteq> ''in_progress''"
    by code_simp
  have st1: "pass_status ?p1 = ''submitted''" and st4: "pass_status ?p4 = ''voided''"
    by (simp_all add: mk_pass_def)
  have l4: "get_line shop ''l4'' = Some ?l4 \<and>
            get_pass shop (line_count_pass_id ?l4) = Some ?p4 \<and>
            pass_status ?p4 \<noteq> ''in_progress''"
    by code_simp
  have o: "open_pass \<in> set (passes shop)" by (simp add: shop_def open_pass_def)
  have ox: "\<exists>x\<in>set (passes shop). pass_session_id x = ''s1'' \<and> pass_status x = ''in_progress''"
    using o by (intro bexI [of _ open_pass]) (simp_all add: open_pass_def mk_pass_def)
  have sess: "get_session shop ''s1'' = Some ?s" by (simp add: shop_def get_session_def)
  have la: "list_all (\<lambda>x. pass_status x = ''submitted'' \<or> pass_status x = ''voided'')
              (passes counted_shop)"
    by code_simp
  have c: "get_session counted_shop ''s1'' = Some ?s \<and> sess_status ?s = ''in_progress'' \<and>
           (\<forall>x\<in>set (passes counted_shop). pass_session_id x = ''s1'' \<longrightarrow>
               pass_status x \<noteq> ''in_progress'')"
  proof (intro conjI)
    show "get_session counted_shop ''s1'' = Some ?s" by code_simp
    show "sess_status ?s = ''in_progress''" by (simp add: shop_def)
    from la show "\<forall>x\<in>set (passes counted_shop). pass_session_id x = ''s1'' \<longrightarrow>
               pass_status x \<noteq> ''in_progress''"
      by (auto simp: list_all_iff)
  qed
  note t = lifecycle_guard [where db = shop and pid = "''p1''" and p = ?p1 and lid = "''l4''"
      and l = ?l4 and q = ?p4 and sid = "''s1''" and s = ?s]
  note t' = lifecycle_guard [where db = counted_shop and sid = "''s1''" and s = ?s]
  have a1: "add_line shop 7 (0, 50) ''l9'' ''p1'' (scan ''A'' None) =
     (Inl (InvalidState ''submitted''), shop)"
    using mp [OF t [THEN conjunct1] p1] unfolding st1 .
  have a2: "update_line shop 7 (0, 50) ''l4'' \<lparr> ul_counted_qty = Some 1, ul_notes = None \<rparr> =
     (Inl (InvalidState ''voided''), shop) \<and>
     delete_line shop ''l4'' = (Inl (InvalidState ''voided''), shop)"
    using mp [OF t [THEN conjunct2, THEN conjunct1] l4] unfolding st4 .
  have a3: "\<exists>m. submit_session shop ''s1'' = (Inl (InvalidState m), shop)"
    using mp [OF mp [OF t [THEN conjunct2, THEN conjunct2, THEN conjunct1] ox, THEN conjunct2] sess] .
  have a4: "submit_session counted_shop ''s1'' =
     (Inr (?s\<lparr> sess_status := ''submitted'' \<rparr>),
      set_session_status ''s1'' ''submitted'' counted_shop)"
    using mp [OF t' [THEN conjunct2, THEN conjunct2, THEN conjunct2] c] .
  from a1 a2 o a3 la a4 show ?thesis by blast
qed

section \<open>Properties of the sales sync\<close>

lemma existing_has_key: "(existing_movement ms store_id m \<noteq> None) = has_key ms store_id m"
  by (auto simp: existing_movement_def has_key_def find_None_iff)

lemma existing_Some_has_key:
  "(\<exists>y. existing_movement ms store_id m = Some y) = has_key ms store_id m"
  using existing_has_key [of ms store_id m] by auto

lemma has_key_append: "has_key (ms @ xs) s m = (has_key ms s m \<or> has_key xs s m)"
  by (auto simp: has_key_def)

lemma sale_to_movement_fields:
  assumes "sale_to_movement db sl store_id = Inr (Some m)"
  shows "mv_store_id m = store_id \<and> mv_source m = ''cova_sync'' \<and>
         mv_movement_type m = ''sale'' \<and>
         mv_sku m = the (sale_product_sku sl) \<and>
         mv_qty_delta m = - \<bar>the (sale_quantity sl)\<bar> \<and>
         date_of (mv_occurred_at m) = sale_transaction_date sl \<and>
         mv_source_ref m =
           Some (sale_transaction_id sl @ '':'' @ int_str (sale_line_number sl))"
proof (cases "truthy (sale_product_sku sl)")
  case False
  with assms show ?thesis by (simp add: sale_to_movement_def)
next
  case True
  show ?thesis
  proof (cases "find_product db (the (sale_product_sku sl))")
    case None
    with True assms show ?thesis by (simp add: sale_to_movement_def)
  next
    case (Some pr)
    show ?thesis
    proof (cases "sale_quantity sl")
      case None
      with True Some assms show ?thesis by (simp add: sale_to_movement_def)
    next
      case (Some q)
      with True \<open>find_product db (the (sale_product_sku sl)) = Some pr\<close> assms
      have "m = \<lparr> mv_store_id = store_id, mv_product_id = prod_id pr,
                  mv_sku = the (sale_product_sku sl), mv_movement_type = ''sale'',
                  mv_qty_delta = - \<bar>q\<bar>,
                  mv_occurred_at = combine (sale_transaction_date sl)
                    (case sale_transaction_time sl of None \<Rightarrow> min_time | Some t \<Rightarrow> t),
                  mv_source = ''cova_sync'',
                  mv_source_ref = Some (sale_transaction_id sl @ '':'' @
                                        int_str (sale_line_number sl)) \<rparr>"
        by (simp add: sale_to_movement_def)
      with Some show ?thesis by (simp add: date_of_def combine_def)
    qed
  qed
qed

lemma sale_to_movement_products:
  assumes "products db' = products db"
  shows "sale_to_movement db' = sale_to_movement db"
proof -
  have "find_product db' = find_product db"
    by (intro ext) (simp only: find_product_def assms)
  then show ?thesis by (intro ext) (simp add: sale_to_movement_def)
qed

lemma candidates_products:
  assumes "products db' = products db"
  shows "candidates db' = candidates db"
  by (intro ext) (simp add: candidates_def sale_to_movement_products [OF assms])

lemma sync_rows_products:
  assumes "products db' = products db"
  shows "sync_rows db' s f sales acc = sync_rows db s f sales acc"
  by (induction sales arbitrary: acc)
     (simp_all add: sync_row_def sale_to_movement_products [OF assms])

lemma candidates_Cons:
  "candidates db s (sl # sls) =
     (case sale_to_movement db sl s of Inr (Some m) \<Rightarrow> [m] | _ \<Rightarrow> []) @ candidates db s sls"
  by (simp add: candidates_def)

lemma candidate_store:
  "m \<in> set (candidates db s sales) \<Longrightarrow> mv_store_id m = s \<and> mv_source m = ''cova_sync''"
  by (auto simp: candidates_def dest: sale_to_movement_fields [OF sym]
      split: sum.splits option.splits)

text \<open>A forced run appends every candidate.\<close>
lemma sync_rows_force:
  "fst (sync_rows db s True sales (ms, st)) = ms @ candidates db s sales"
proof (induction sales arbitrary: ms st)
  case Nil
  show ?case by (simp add: candidates_def)
next
  case (Cons sl sls)
  show ?case
    by (cases "sale_to_movement db sl s")
       (auto simp: sync_row_def Let_def candidates_Cons Cons.IH split: option.splits)
qed

text \<open>A run only appends to the table.\<close>
lemma sync_rows_prefix:
  "\<exists>added. fst (sync_rows db s f sales (ms, st)) = ms @ added"
proof (induction sales arbitrary: ms st)
  case Nil
  show ?case by simp
next
  case (Cons sl sls)
  obtain ms' st' where r: "sync_row db s f sl (ms, st) = (ms', st')" by (cases "sync_row db s f sl (ms, st)")
  have "\<exists>a. ms' = ms @ a"
    using r by (auto simp: sync_row_def Let_def split: sum.splits option.splits if_splits)
  then obtain a where a: "ms' = ms @ a" ..
  from Cons.IH [of ms' st'] obtain b where "fst (sync_rows db s f sls (ms', st')) = ms' @ b" ..
  with a r show ?case by simp
qed

lemma sync_rows_keeps_keys:
  "has_key ms s m \<Longrightarrow> has_key (fst (sync_rows db s f sales (ms, st))) s m"
  using sync_rows_prefix [of db s f sales ms st] by (auto simp: has_key_append)

text \<open>After a run without force, the key of every candidate is in the table.\<close>
lemma sync_rows_covers:
  "m \<in> set (candidates db s sales) \<Longrightarrow>
     has_key (fst (sync_rows db s False sales (ms, st))) s m"
proof (induction sales arbitrary: ms st)
  case Nil
  then show ?case by (simp add: candidates_def)
next
  case (Cons sl sls)
  obtain ms' st' where r: "sync_row db s False sl (ms, st) = (ms', st')"
    by (cases "sync_row db s False sl (ms, st)")
  show ?case
  proof (cases "m \<in> set (candidates db s sls)")
    case True
    from Cons.IH [OF True, of ms' st'] r show ?thesis by simp
  next
    case False
    with Cons.prems have c: "sale_to_movement db sl s = Inr (Some m)"
      by (auto simp: candidates_Cons split: sum.splits option.splits)
    from sale_to_movement_fields [OF c] have "mv_store_id m = s" by simp
    then have "has_key [m] s m" by (simp add: has_key_def)
    with r c have "has_key ms' s m"
      by (auto simp: sync_row_def Let_def existing_Some_has_key has_key_append split: if_splits)
    from sync_rows_keeps_keys [OF this, of db False sls st'] r show ?thesis by simp
  qed
qed

text \<open>A run without force over sales whose keys are all present changes nothing.\<close>
lemma sync_rows_skips:
  "\<forall>m\<in>set (candidates db s sales). has_key ms s m \<Longrightarrow>
     fst (sync_rows db s False sales (ms, st)) = ms \<and>
     st_movements_created (snd (sync_rows db s False sales (ms, st))) = st_movements_created st"
proof (induction sales arbitrary: st)
  case Nil
  show ?case by simp
next
  case (Cons sl sls)
  from Cons.prems have rest: "\<forall>m\<in>set (candidates db s sls). has_key ms s m"
    by (simp add: candidates_Cons)
  have "\<exists>st'. sync_row db s False sl (ms, st) = (ms, st') \<and>
              st_movements_created st' = st_movements_created st"
  proof (cases "sale_to_movement db sl s")
    case (Inl e)
    then show ?thesis by (simp add: sync_row_def)
  next
    case (Inr v)
    show ?thesis
    proof (cases v)
      case None
      with Inr show ?thesis by (simp add: sync_row_def Let_def)
    next
      case (Some m)
      with Inr Cons.prems have "has_key ms s m" by (simp add: candidates_Cons)
      with Inr Some show ?thesis by (simp add: sync_row_def existing_Some_has_key)
    qed
  qed
  then obtain st' where r: "sync_row db s False sl (ms, st) = (ms, st')"
    and c: "st_movements_created st' = st_movements_created st" by blast
  from Cons.IH [OF rest, of st'] r c show ?case by simp
qed

text \<open>A run without force over new, pairwise distinct keys appends every candidate.\<close>
lemma sync_rows_fresh:
  "distinct (map (\<lambda>m. (mv_sku m, mv_source_ref m)) (candidates db s sales)) \<Longrightarrow>
   \<forall>m\<in>set (candidates db s sales). \<not> has_key ms s m \<Longrightarrow>
     fst (sync_rows db s False sales (ms, st)) = ms @ candidates db s sales"
proof (induction sales arbitrary: ms st)
  case Nil
  show ?case by (simp add: candidates_def)
next
  case (Cons sl sls)
  show ?case
  proof (cases "sale_to_movement db sl s")
    case (Inl e)
    with Cons show ?thesis by (simp add: sync_row_def candidates_Cons)
  next
    case (Inr v)
    show ?thesis
    proof (cases v)
      case None
      with Inr Cons show ?thesis by (simp add: sync_row_def Let_def candidates_Cons)
    next
      case (Some m)
      with Inr have c: "candidates db s (sl # sls) = m # candidates db s sls"
        by (simp add: candidates_Cons)
      from Cons.prems c have d: "distinct (map (\<lambda>m. (mv_sku m, mv_source_ref m)) (candidates db s sls))"
        and nm: "\<forall>x\<in>set (candidates db s sls). (mv_sku x, mv_source_ref x) \<noteq> (mv_sku m, mv_source_ref m)"
        and f: "\<not> has_key ms s m" "\<forall>x\<in>set (candidates db s sls). \<not> has_key ms s x"
        by (auto simp: image_iff)
      have "\<forall>x\<in>set (candidates db s sls). \<not> has_key (ms @ [m]) s x"
        using nm f by (auto simp: has_key_append has_key_def)
      from Cons.IH [OF d this] Inr Some f c show ?thesis
        by (simp add: sync_row_def existing_Some_has_key)
    qed
  qed
qed


lemma candidate_sale:
  "m \<in> set (candidates db s sales) \<Longrightarrow> \<exists>sl\<in>set sales. sale_to_movement db sl s = Inr (Some m)"
  by (auto simp: candidates_def split: sum.splits option.splits)

lemma candidates_deleted:
  assumes "m \<in> set (candidates db s (fetch_sales cova fd td ids))"
  shows "resync_deletes s fd td m"
proof -
  from candidate_sale [OF assms] obtain sl where
    sl: "sl \<in> set (fetch_sales cova fd td ids)" and c: "sale_to_movement db sl s = Inr (Some m)"
    by blast
  from sl have "fd \<le> sale_transaction_date sl \<and> sale_transaction_date sl \<le> td"
    by (simp add: fetch_sales_def)
  with sale_to_movement_fields [OF c] show ?thesis by (simp add: resync_deletes_def)
qed

lemma sync_tables:
  "products (snd (sync_sales_to_movements d cova today s from_date to_date f)) = products d"
  by (simp add: sync_sales_to_movements_def Let_def)

lemma sync_noforce:
  assumes "fd = (case from_date of None \<Rightarrow> today - 1 | Some d \<Rightarrow> d)"
      and "td = (case to_date of None \<Rightarrow> today | Some d \<Rightarrow> d)"
  shows "\<exists>st. st_movements_created st = 0 \<and>
           sync_sales_to_movements d cova today s from_date to_date False =
             (snd (sync_rows d s False (fetch_sales cova fd td (get_cova_store_ids s))
                     (movements d, st)),
              d\<lparr> movements := fst (sync_rows d s False
                     (fetch_sales cova fd td (get_cova_store_ids s)) (movements d, st)) \<rparr>)"
  unfolding assms sync_sales_to_movements_def Let_def
  by (intro exI conjI) (simp_all del: sync_rows.simps)

lemma sync_force:
  assumes "fd = (case from_date of None \<Rightarrow> today - 1 | Some d \<Rightarrow> d)"
      and "td = (case to_date of None \<Rightarrow> today | Some d \<Rightarrow> d)"
  shows "movements (snd (sync_sales_to_movements d cova today s from_date to_date True)) =
           filter (\<lambda>m. \<not> resync_deletes s fd td m) (movements d) @
           candidates d s (fetch_sales cova fd td (get_cova_store_ids s))"
  unfolding assms sync_sales_to_movements_def Let_def
  by (simp add: sync_rows_force del: sync_rows.simps)

lemma sync_force_deleted:
  assumes "fd = (case from_date of None \<Rightarrow> today - 1 | Some d \<Rightarrow> d)"
      and "td = (case to_date of None \<Rightarrow> today | Some d \<Rightarrow> d)"
  shows "st_movements_deleted (fst (sync_sales_to_movements d cova today s from_date to_date True)) =
           Some (length (filter (resync_deletes s fd td) (movements d)))"
proof -
  have "st_movements_deleted (snd (sync_rows d s f sales (ms, st))) = st_movements_deleted st"
    for f sales ms st
    by (induction sales arbitrary: ms st)
       (auto simp: sync_row_def Let_def split: sum.splits option.splits)
  then show ?thesis
    unfolding assms sync_sales_to_movements_def Let_def by (simp del: sync_rows.simps)
qed

text \<open>
  C4, amended. After a sync without \<open>forceResync\<close>, a second one over the same sales creates
  no movement and leaves the movement table as it is: a candidate whose store, SKU and
  source reference are in the table is skipped, the source reference being
  \<open>transactionId:lineNumber\<close>. A sync with \<open>forceResync\<close> deletes the store's movements of
  source \<open>cova_sync\<close> in the date range and then inserts one movement for every sale that
  resolves, without an existence check; repeating it reproduces the same table. That table
  is the one a sync without \<open>forceResync\<close> builds from the table without the deleted
  movements, provided no two resolving sales share SKU and source reference and no
  remaining movement of the store carries those of one.
\<close>

theorem sync_rerun:
  assumes fd: "fd = (case from_date of None \<Rightarrow> today - 1 | Some d \<Rightarrow> d)"
      and td: "td = (case to_date of None \<Rightarrow> today | Some d \<Rightarrow> d)"
      and sales: "sales = fetch_sales cova fd td (get_cova_store_ids store)"
      and kept: "kept = filter (\<lambda>m. \<not> resync_deletes store fd td m) (movements db)"
      and db1: "db1 = snd (sync_sales_to_movements db cova today store from_date to_date False)"
      and db2: "db2 = snd (sync_sales_to_movements db cova today store from_date to_date True)"
  shows "movements (snd (sync_sales_to_movements db1 cova today store from_date to_date False)) =
           movements db1 \<and>
         st_movements_created
           (fst (sync_sales_to_movements db1 cova today store from_date to_date False)) = 0 \<and>
         (\<forall>sl m ms st. sale_to_movement db sl store = Inr (Some m) \<longrightarrow>
            mv_source_ref m =
              Some (sale_transaction_id sl @ '':'' @ int_str (sale_line_number sl)) \<and>
            (existing_movement ms store m \<noteq> None \<longrightarrow>
               sync_row db store False sl (ms, st) =
                 (ms, st\<lparr> st_movements_skipped := st_movements_skipped st + 1 \<rparr>))) \<and>
         movements db2 = kept @ candidates db store sales \<and>
         st_movements_deleted
           (fst (sync_sales_to_movements db cova today store from_date to_date True)) =
           Some (length (filter (resync_deletes store fd td) (movements db))) \<and>
         movements (snd (sync_sales_to_movements db2 cova today store from_date to_date True)) =
           movements db2 \<and>
         (distinct (map (\<lambda>m. (mv_sku m, mv_source_ref m)) (candidates db store sales)) \<and>
          (\<forall>m\<in>set (candidates db store sales). \<forall>x\<in>set kept.
              \<not> (mv_store_id x = store \<and> mv_sku x = mv_sku m \<and>
                 mv_source_ref x = mv_source_ref m)) \<longrightarrow>
            movements db2 =
              movements (snd (sync_sales_to_movements (db\<lparr> movements := kept \<rparr>) cova today store
                               from_date to_date False)))"
proof (intro conjI allI impI)
  from sync_noforce [OF fd td, of db cova store] obtain st where
    r1: "sync_sales_to_movements db cova today store from_date to_date False =
           (snd (sync_rows db store False sales (movements db, st)),
            db\<lparr> movements := fst (sync_rows db store False sales (movements db, st)) \<rparr>)"
    unfolding sales by blast
  let ?ms1 = "fst (sync_rows db store False sales (movements db, st))"
  have m1: "movements db1 = ?ms1" and p1: "products db1 = products db"
    unfolding db1 r1 by simp_all
  from sync_noforce [OF fd td, of db1 cova store] obtain st' where
    c0: "st_movements_created st' = 0" and
    r2: "sync_sales_to_movements db1 cova today store from_date to_date False =
           (snd (sync_rows db1 store False sales (movements db1, st')),
            db1\<lparr> movements := fst (sync_rows db1 store False sales (movements db1, st')) \<rparr>)"
    unfolding sales by blast
  have cov: "\<forall>m\<in>set (candidates db store sales). has_key ?ms1 store m"
    by (auto intro: sync_rows_covers)
  note sk = sync_rows_skips [OF cov, of st']
  show "movements (snd (sync_sales_to_movements db1 cova today store from_date to_date False)) =
           movements db1"
    unfolding r2 sync_rows_products [OF p1] m1 using sk by simp
  show "st_movements_created
           (fst (sync_sales_to_movements db1 cova today store from_date to_date False)) = 0"
    unfolding r2 sync_rows_products [OF p1] m1 using sk c0 by simp
next
  fix sl m ms st
  assume c: "sale_to_movement db sl store = Inr (Some m)"
  from sale_to_movement_fields [OF c]
  show "mv_source_ref m =
          Some (sale_transaction_id sl @ '':'' @ int_str (sale_line_number sl))" by simp
  assume "existing_movement ms store m \<noteq> None"
  with c show "sync_row db store False sl (ms, st) =
                 (ms, st\<lparr> st_movements_skipped := st_movements_skipped st + 1 \<rparr>)"
    by (simp add: sync_row_def)
next
  show f: "movements db2 = kept @ candidates db store sales"
    unfolding db2 kept sales by (rule sync_force [OF fd td])
  show "st_movements_deleted
           (fst (sync_sales_to_movements db cova today store from_date to_date True)) =
           Some (length (filter (resync_deletes store fd td) (movements db)))"
    by (rule sync_force_deleted [OF fd td])
  have p2: "products db2 = products db" unfolding db2 by (rule sync_tables)
  have del: "\<forall>m\<in>set (candidates db store sales). resync_deletes store fd td m"
    unfolding sales by (auto intro: candidates_deleted)
  have k: "filter (\<lambda>m. \<not> resync_deletes store fd td m) kept = kept"
    unfolding kept by simp
  have "movements (snd (sync_sales_to_movements db2 cova today store from_date to_date True)) =
          filter (\<lambda>m. \<not> resync_deletes store fd td m) (movements db2) @
          candidates db2 store sales"
    unfolding sales by (rule sync_force [OF fd td])
  also have "\<dots> = kept @ candidates db store sales"
    unfolding f candidates_products [OF p2] using del k by (simp add: filter_empty_conv)
  finally show "movements (snd (sync_sales_to_movements db2 cova today store from_date to_date True)) =
           movements db2"
    unfolding f .
  assume h: "distinct (map (\<lambda>m. (mv_sku m, mv_source_ref m)) (candidates db store sales)) \<and>
          (\<forall>m\<in>set (candidates db store sales). \<forall>x\<in>set kept.
              \<not> (mv_store_id x = store \<and> mv_sku x = mv_sku m \<and>
                 mv_source_ref x = mv_source_ref m))"
  then have d: "distinct (map (\<lambda>m. (mv_sku m, mv_source_ref m)) (candidates db store sales))"
    and fresh: "\<forall>m\<in>set (candidates db store sales). \<not> has_key kept store m"
    by (auto simp: has_key_def)
  let ?d = "db\<lparr> movements := kept \<rparr>"
  have p: "products ?d = products db" by simp
  from sync_noforce [OF fd td, of ?d cova store] obtain st where
    r: "sync_sales_to_movements ?d cova today store from_date to_date False =
           (snd (sync_rows ?d store False sales (movements ?d, st)),
            ?d\<lparr> movements := fst (sync_rows ?d store False sales (movements ?d, st)) \<rparr>)"
    unfolding sales by blast
  have "movements (snd (sync_sales_to_movements ?d cova today store from_date to_date False)) =
          fst (sync_rows db store False sales (kept, st))"
    unfolding r sync_rows_products [OF p] by simp
  also have "\<dots> = kept @ candidates db store sales"
    by (rule sync_rows_fresh [OF d fresh])
  finally show "movements db2 =
              movements (snd (sync_sales_to_movements (db\<lparr> movements := kept \<rparr>) cova today store
                               from_date to_date False))"
    unfolding f by simp
qed


text \<open>
  C4, as stated: a forced re-sync reproduces the movement set of the sync before it. In the
  example the same transaction line is exported under two spellings of the store, with
  different quantities. The sync without \<open>forceResync\<close> keeps the first; the forced re-sync
  after it inserts both.
\<close>

theorem forced_resync_duplicates:
  "movements (snd (sync_sales_to_movements empty_ledger dup_sales 1 1 (Some 0) (Some 0) False)) =
     [mk_movement 1 1 ''A'' (- 1) (0, 5) ''T9:1''] \<and>
   movements (snd (sync_sales_to_movements
       (snd (sync_sales_to_movements empty_ledger dup_sales 1 1 (Some 0) (Some 0) False))
       dup_sales 1 1 (Some 0) (Some 0) True)) =
     [mk_movement 1 1 ''A'' (- 1) (0, 5) ''T9:1'', mk_movement 1 1 ''A'' (- 2) (0, 6) ''T9:1''] \<and>
   set [mk_movement 1 1 ''A'' (- 1) (0, 5) ''T9:1'', mk_movement 1 1 ''A'' (- 2) (0, 6) ''T9:1''] \<noteq>
   set [mk_movement 1 1 ''A'' (- 1) (0, 5) ''T9:1'']"
proof (intro conjI)
  show "movements (snd (sync_sales_to_movements empty_ledger dup_sales 1 1 (Some 0) (Some 0) False)) =
     [mk_movement 1 1 ''A'' (- 1) (0, 5) ''T9:1'']"
    by code_simp
  show "movements (snd (sync_sales_to_movements
       (snd (sync_sales_to_movements empty_ledger dup_sales 1 1 (Some 0) (Some 0) False))
       dup_sales 1 1 (Some 0) (Some 0) True)) =
     [mk_movement 1 1 ''A'' (- 1) (0, 5) ''T9:1'', mk_movement 1 1 ''A'' (- 2) (0, 6) ''T9:1'']"
    by code_simp
  show "set [mk_movement 1 1 ''A'' (- 1) (0, 5) ''T9:1'', mk_movement 1 1 ''A'' (- 2) (0, 6) ''T9:1''] \<noteq>
   set [mk_movement 1 1 ''A'' (- 1) (0, 5) ''T9:1'']"
    by (simp add: mk_movement_def)
qed

theorem sync_rerun_witness:
  "st_movements_created
     (fst (sync_sales_to_movements
        (snd (sync_sales_to_movements shop day_sales 1 1 (Some 0) (Some 0) False))
        day_sales 1 1 (Some 0) (Some 0) False)) = 0 \<and>
   movements (snd (sync_sales_to_movements shop day_sales 1 1 (Some 0) (Some 0) True)) =
     [mk_movement 2 1 ''A'' (- 7) (0, 5) ''T3:1'',
      mk_movement 1 1 ''A'' (- 3) (0, 15) ''T1:1'',
      mk_movement 1 2 ''B'' (- 1) (0, 35) ''T2:1''] \<and>
   distinct (map (\<lambda>m. (mv_sku m, mv_source_ref m))
     (candidates shop 1 (fetch_sales day_sales 0 0 (get_cova_store_ids 1)))) \<and>
   movements (snd (sync_sales_to_movements shop day_sales 1 1 (Some 0) (Some 0) True)) =
     movements (snd (sync_sales_to_movements
       (shop\<lparr> movements := filter (\<lambda>m. \<not> resync_deletes 1 0 0 m) (movements shop) \<rparr>)
       day_sales 1 1 (Some 0) (Some 0) False))"
proof -
  have fd: "(0::int) = (case Some 0 of None \<Rightarrow> 1 - 1 | Some d \<Rightarrow> d)"
    and td: "(0::int) = (case Some 0 of None \<Rightarrow> 1 | Some d \<Rightarrow> d)" by simp_all
  note t = sync_rerun [where db = shop and cova = day_sales, OF fd td refl refl refl refl]
  have d: "distinct (map (\<lambda>m. (mv_sku m, mv_source_ref m))
     (candidates shop 1 (fetch_sales day_sales 0 0 (get_cova_store_ids 1))))"
    by code_simp
  have n: "\<forall>m\<in>set (candidates shop 1 (fetch_sales day_sales 0 0 (get_cova_store_ids 1))).
             \<forall>x\<in>set (filter (\<lambda>m. \<not> resync_deletes 1 0 0 m) (movements shop)).
               \<not> (mv_store_id x = 1 \<and> mv_sku x = mv_sku m \<and> mv_source_ref x = mv_source_ref m)"
    by code_simp
  have v: "filter (\<lambda>m. \<not> resync_deletes 1 0 0 m) (movements shop) @
           candidates shop 1 (fetch_sales day_sales 0 0 (get_cova_store_ids 1)) =
           [mk_movement 2 1 ''A'' (- 7) (0, 5) ''T3:1'',
            mk_movement 1 1 ''A'' (- 3) (0, 15) ''T1:1'',
            mk_movement 1 2 ''B'' (- 1) (0, 35) ''T2:1'']"
    by code_simp
  note c2 = t [THEN conjunct2, THEN conjunct1]
  note c4 = t [THEN conjunct2, THEN conjunct2, THEN conjunct2, THEN conjunct1]
  note c7 = mp [OF t [THEN conjunct2, THEN conjunct2, THEN conjunct2, THEN conjunct2,
                      THEN conjunct2, THEN conjunct2] conjI [OF d n]]
  note r2 = trans [OF c4 v]
  show ?thesis by (intro conjI) (rule c2 r2 d c7)+
qed

end
